theory Spec2Isabelle
  imports Main "HOL-Library.AList"
begin

section \<open>Values exchanged between the HTTP layer and the controllers\<close>

text \<open>
  JSON documents as \<open>json.loads\<close> returns them and as \<open>JsonResponse\<close> serialises them.
  Floating point numbers are left out: none of the properties below depends on them.
\<close>

datatype json =
    JNull
  | JBool bool
  | JInt int
  | JStr string
  | JArr "json list"
  | JObj "(string \<times> json) list"

text \<open>
  A validated pydantic instance: the class it belongs to and its canonical
  representation, the dictionary that \<open>model_dump(mode='json')\<close> returns.
\<close>

datatype model = Model string "(string \<times> json) list"

fun model_dump :: "model \<Rightarrow> json" where
  "model_dump (Model c fs) = JObj fs"

text \<open>Python values that travel as keyword arguments.\<close>

datatype pyval =
    PNone
  | PBool bool
  | PInt int
  | PStr string
  | PList "pyval list"
  | PModel model

type_synonym kwargs = "(string \<times> pyval) list"

text \<open>
  Exceptions. \<open>ValidationError\<close> is pydantic's: it carries \<open>str(e.errors())\<close> and
  \<open>str(e)\<close>, and it is a subclass of \<open>ValueError\<close>. \<open>ValueError\<close> carries
  \<open>str(e.args[0])\<close> when it has arguments.
\<close>

datatype exn =
    ValidationError string string
  | ValueError "string option"
  | Http404 string
  | TypeError string
  | AttributeError string
  | OtherException string

fun is_ValueError :: "exn \<Rightarrow> bool" where
  "is_ValueError (ValidationError errs txt) = True"
| "is_ValueError (ValueError a) = True"
| "is_ValueError e = False"

fun str_exn :: "exn \<Rightarrow> string" where
  "str_exn (ValidationError errs txt) = txt"
| "str_exn (ValueError None) = []"
| "str_exn (ValueError (Some m)) = m"
| "str_exn (Http404 m) = m"
| "str_exn (TypeError m) = m"
| "str_exn (AttributeError m) = m"
| "str_exn (OtherException m) = m"

section \<open>Dictionaries\<close>

text \<open>
  A \<open>dict\<close> is an association list with distinct keys in insertion order.
  \<open>d[k] = v\<close> is \<open>AList.update k v d\<close> (in place when the key exists, at the end
  otherwise), \<open>d.pop(k)\<close> is \<open>AList.delete k d\<close>, and \<open>a | b\<close> is \<open>dict_union a b\<close>.
\<close>

definition dict_union :: "('k \<times> 'v) list \<Rightarrow> ('k \<times> 'v) list \<Rightarrow> ('k \<times> 'v) list" where
  "dict_union a b = fold (\<lambda>(k, v) d. AList.update k v d) b a"

definition has_key :: "'k \<Rightarrow> ('k \<times> 'v) list \<Rightarrow> bool" where
  "has_key k d = (map_of d k \<noteq> None)"

text \<open>
  A call \<open>f(a, b=c, **d)\<close> raises a \<open>TypeError\<close> before the body of \<open>f\<close> runs when
  \<open>d\<close> has a key that names a parameter which the call binds already.
  \<open>keyword_clash params d\<close> holds when \<open>d\<close> has such a key; the exception is kept
  without the name that Python puts in its text, which no response ever shows.
\<close>

definition keyword_clash :: "string list \<Rightarrow> kwargs \<Rightarrow> bool" where
  "keyword_clash params d = list_ex (\<lambda>p. has_key p d) params"

definition multiple_values :: exn where
  "multiple_values = TypeError ''got multiple values for argument''"

section \<open>Type annotations\<close>

text \<open>
  The engine uses an annotation \<open>typ\<close> in four ways only: \<open>typ is Any\<close>,
  \<open>get_origin(typ) is not None\<close>, \<open>isinstance(val, typ)\<close> and the call \<open>typ(val)\<close>.
  The last two can raise.
\<close>

record py_type =
  is_Any :: bool
  has_origin :: bool
  isinstance_of :: "pyval \<Rightarrow> exn + bool"
  construct :: "pyval \<Rightarrow> exn + pyval"

text \<open>What \<open>inspect.getfullargspec\<close> reports and the engine reads.\<close>

record argspec =
  spec_args :: "string list"
  spec_annotations :: "(string \<times> py_type) list"
  spec_varkw :: "string option"

subsection \<open>\<open>BaseAsyncHttpTransport._clean_args\<close>\<close>

fun is_list :: "pyval \<Rightarrow> bool" where
  "is_list (PList xs) = True"
| "is_list v = False"

fun py_len :: "pyval \<Rightarrow> nat" where
  "py_len (PList xs) = length xs"
| "py_len (PStr s) = length s"
| "py_len v = 0"

text \<open>
  The condition of the first branch, a chain of \<open>and\<close> evaluated from the left;
  \<open>isinstance(val, typ)\<close> is evaluated last and only when everything before it holds.
\<close>

definition unwrap_condition :: "py_type \<Rightarrow> pyval \<Rightarrow> exn + bool" where
  "unwrap_condition typ val =
     (let typ_is_generic = (\<not> is_Any typ \<and> has_origin typ) in
      if is_Any typ then Inr False
      else if \<not> is_list val then Inr False
      else if py_len val \<noteq> 1 then Inr False
      else if typ_is_generic then Inr False
      else (case isinstance_of typ val of
              Inl e \<Rightarrow> Inl e
            | Inr b \<Rightarrow> Inr (\<not> b)))"

text \<open>
  One iteration of the loop: \<open>Inl e\<close> when the iteration raises, \<open>Inr None\<close> when the
  name is dropped, \<open>Inr (Some v)\<close> when \<open>ret[name] = v\<close> is executed.
\<close>

definition clean_value :: "argspec \<Rightarrow> string \<Rightarrow> pyval \<Rightarrow> exn + pyval option" where
  "clean_value spec name val =
     (case map_of (spec_annotations spec) name of
        Some typ \<Rightarrow>
          (case unwrap_condition typ val of
             Inl e \<Rightarrow> Inl e
           | Inr True \<Rightarrow>
               (case val of
                  PList (x # xs) \<Rightarrow>
                    (case construct typ x of
                       Inl e \<Rightarrow> Inl e
                     | Inr v \<Rightarrow> Inr (Some v))
                | _ \<Rightarrow> Inl (TypeError ''not subscriptable''))
           | Inr False \<Rightarrow>
               (case construct typ val of
                  Inl e \<Rightarrow> Inr (Some val)
                | Inr v \<Rightarrow> Inr (Some v)))
      | None \<Rightarrow>
          (case spec_varkw spec of
             Some kw \<Rightarrow>
               (if is_list val \<and> py_len val = 1
                then (case val of
                        PList (x # xs) \<Rightarrow> Inr (Some x)
                      | _ \<Rightarrow> Inl (TypeError ''not subscriptable''))
                else Inr (Some val))
           | None \<Rightarrow> Inr None))"

fun clean_items :: "argspec \<Rightarrow> kwargs \<Rightarrow> kwargs \<Rightarrow> exn + kwargs" where
  "clean_items spec [] ret = Inr ret"
| "clean_items spec ((name, val) # rest) ret =
     (case clean_value spec name val of
        Inl e \<Rightarrow> Inl e
      | Inr None \<Rightarrow> clean_items spec rest ret
      | Inr (Some v) \<Rightarrow> clean_items spec rest (AList.update name v ret))"

text \<open>
  The call \<open>self._clean_args(handler, **kw)\<close> of the class method
  \<open>_clean_args(cls, handler, **kwargs)\<close>, and then its loop.
\<close>

definition clean_args :: "argspec \<Rightarrow> kwargs \<Rightarrow> exn + kwargs" where
  "clean_args spec kw =
     (if keyword_clash [''cls'', ''handler''] kw then Inl multiple_values
      else clean_items spec kw [])"

section \<open>HTTP requests and responses\<close>

datatype verb = GET | POST | PUT | DELETE

text \<open>
  The request body as the engine sees it: \<open>not request.body\<close>, or
  \<open>json.loads(request.body.decode())\<close> raising a \<open>ValueError\<close> with the given text, or
  the value it returns.
\<close>

datatype payload = EmptyBody | Undecodable string | Decoded json

text \<open>
  \<open>req_method\<close> is \<open>None\<close> for a verb other than the four that an action can declare.
  \<open>req_GET\<close> is the query multi-map; \<open>req_content_type\<close> is the media type.
\<close>

record http_request =
  req_method :: "verb option"
  req_content_type :: string
  req_body :: payload
  req_GET :: "(string \<times> string list) list"
  req_path :: string

datatype header_value = HStr string | HInt int

datatype body = Bytes string | JsonBody json

text \<open>
  Response headers are case-insensitive: the store maps the lower-cased name to the
  name as written and the value.
\<close>

record http_response =
  status_code :: nat
  content :: body
  headers :: "(string \<times> string \<times> header_value) list"

definition lower_char :: "char \<Rightarrow> char" where
  "lower_char c =
     (case map_of (zip ''ABCDEFGHIJKLMNOPQRSTUVWXYZ'' ''abcdefghijklmnopqrstuvwxyz'') c of
        Some l \<Rightarrow> l
      | None \<Rightarrow> c)"

definition py_lower :: "string \<Rightarrow> string" where
  "py_lower s = map lower_char s"

definition set_header :: "string \<Rightarrow> header_value \<Rightarrow> http_response \<Rightarrow> http_response" where
  "set_header name v resp =
     resp\<lparr>headers := AList.update (py_lower name) (name, v) (headers resp)\<rparr>"


definition HttpResponse :: "nat \<Rightarrow> string \<Rightarrow> http_response" where
  "HttpResponse st c =
     \<lparr>status_code = st, content = Bytes c,
      headers = [(''content-type'', (''Content-Type'', HStr ''text/html; charset=utf-8''))]\<rparr>"

definition HttpResponseBadRequest :: "string \<Rightarrow> http_response" where
  "HttpResponseBadRequest c = HttpResponse 400 c"

definition JsonResponse :: "json \<Rightarrow> http_response" where
  "JsonResponse j =
     \<lparr>status_code = 200, content = JsonBody j,
      headers = [(''content-type'', (''Content-Type'', HStr ''application/json''))]\<rparr>"

definition HttpResponseNotAllowed :: "http_response" where
  "HttpResponseNotAllowed =
     set_header ''Allow'' (HStr ''GET, POST, PUT, DELETE, HEAD, OPTIONS'') (HttpResponse 405 [])"

definition extra_params :: "http_request \<Rightarrow> kwargs" where
  "extra_params request = map (\<lambda>(k, vs). (k, PList (map PStr vs))) (req_GET request)"

section \<open>Resources, controllers and handlers\<close>

text \<open>
  A pydantic model class: its identity, its \<open>__name__\<close>, the annotation of each field,
  \<open>model_validate(obj, strict=True)\<close>, and \<open>model_json_schema\<close> split into the schema
  itself and its \<open>$defs\<close>.
\<close>

record schema =
  schema_qualname :: string
  schema_name :: string
  model_fields :: "(string \<times> py_type) list"
  model_validate :: "json \<Rightarrow> exn + model"
  model_json_schema :: "(string \<times> json) list"
  schema_defs :: "(string \<times> json) list"

record resource =
  res_pk :: string
  Create :: schema
  Update :: schema
  Retrieve :: schema

text \<open>
  Annotations as the schema generator reads them, by their shape: \<open>Any\<close>, \<open>None\<close>,
  \<open>type(None)\<close>, a pydantic model, \<open>Union[...]\<close>, a subscripted or bare \<open>List\<close>, a
  \<open>Dict\<close>, one of the six primitive types, or anything else.
\<close>

datatype prim = PrimStr | PrimInt | PrimFloat | PrimBool | PrimDict | PrimList

datatype type_hint =
    HAny
  | HNone
  | HNoneType
  | HModel schema
  | HUnion "type_hint list"
  | HList "type_hint list"
  | HDict "type_hint list"
  | HPrim prim
  | HOther

record metadata =
  total_count :: "int option"
  content_type :: "string option"
  content_name :: "string option"

definition Metadata :: metadata where
  "Metadata = \<lparr>total_count = None, content_type = None, content_name = None\<rparr>"

text \<open>What a business method returns: nothing, a pre-built response, a list of models or a model.\<close>

datatype retval = RNone | RResponse http_response | RList "model list" | RModel model

text \<open>
  A business method: its \<open>__name__\<close>, its argument specification, its
  \<open>__annotations__\<close>, and what a call with the given keyword arguments does to the
  controller's metadata and returns or raises.
\<close>

record handler =
  func_name :: string
  func_spec :: argspec
  func_hints :: "(string \<times> type_hint) list"
  func_body :: "kwargs \<Rightarrow> metadata \<Rightarrow> (exn + retval) \<times> metadata"

record method_mapping =
  mm_methods :: "verb list"
  mm_detail :: bool
  mm_url_path :: string
  mm_func :: handler
  mm_resource :: "resource option"

definition build_methods_map :: "method_mapping \<Rightarrow> (verb \<times> string) list" where
  "build_methods_map m =
     fold (\<lambda>meth d. AList.update meth (func_name (mm_func m)) d) (mm_methods m) []"

datatype attr = Method handler | Action method_mapping

text \<open>
  A controller class: \<open>ctrl_attrs\<close> lists its methods and actions under their attribute
  names, in the order of \<open>dir()\<close>. A permission or throttle is the result of its
  \<open>validate\<close> on the request.
\<close>

record controller =
  ctrl_name :: string
  ctrl_Resource :: resource
  PERMISSIONS :: "(http_request \<Rightarrow> bool \<times> string option) list"
  THROTTLERS :: "(http_request \<Rightarrow> bool \<times> string option) list"
  ctrl_attrs :: "(string \<times> attr) list"

fun all_valid :: "(http_request \<Rightarrow> bool \<times> string option) list \<Rightarrow> http_request \<Rightarrow> bool" where
  "all_valid [] request = True"
| "all_valid (perm # rest) request =
     (case perm request of (ok, err_msg) \<Rightarrow> if \<not> ok then False else all_valid rest request)"

definition check_permission :: "controller \<Rightarrow> http_request \<Rightarrow> bool" where
  "check_permission c request =
     (if \<not> all_valid (PERMISSIONS c) request then False
      else if \<not> all_valid (THROTTLERS c) request then False
      else True)"

section \<open>The dispatch engine\<close>

datatype outcome = Response http_response | Raised exn

datatype log = LogCritical string string | LogException string

text \<open>
  What processing a request leaves behind: the response returned or the exception
  raised, the business methods called (name and keyword arguments, in order), and
  the log records written.
\<close>

record run =
  outcome :: outcome
  calls :: "(string \<times> kwargs) list"
  logs :: "log list"

definition get_controller_handler_spec :: "attr \<Rightarrow> argspec" where
  "get_controller_handler_spec controller_handler =
     (case controller_handler of
        Action m \<Rightarrow> func_spec (mm_func m)
      | Method h \<Rightarrow> func_spec h)"

text \<open>
  \<open>_restore_bound_method\<close> wraps the action's function in
  \<open>async def bound_method(*args, **kwargs)\<close>: the wrapper has no named argument, no
  annotation and a catch-all, and calls the function. The name kept here is that of
  the function it calls, which is what the record of calls shows.
\<close>

definition restore_bound_method :: "handler \<Rightarrow> handler" where
  "restore_bound_method meth =
     \<lparr>func_name = func_name meth,
      func_spec = \<lparr>spec_args = [], spec_annotations = [], spec_varkw = Some ''kwargs''\<rparr>,
      func_hints = [],
      func_body = func_body meth\<rparr>"

definition callable_of :: "attr \<Rightarrow> handler" where
  "callable_of controller_handler =
     (case controller_handler of
        Action m \<Rightarrow> restore_bound_method (mm_func m)
      | Method h \<Rightarrow> h)"

definition truthy_str :: "string option \<Rightarrow> bool" where
  "truthy_str s = (case s of None \<Rightarrow> False | Some t \<Rightarrow> t \<noteq> [])"

definition truthy_int :: "int option \<Rightarrow> bool" where
  "truthy_int n = (case n of None \<Rightarrow> False | Some k \<Rightarrow> k \<noteq> 0)"

definition apply_total_count :: "metadata \<Rightarrow> http_response \<Rightarrow> http_response" where
  "apply_total_count md resp =
     (if truthy_int (total_count md)
      then set_header ''X-Total-Count'' (HInt (the (total_count md))) resp else resp)"

definition apply_content_type :: "metadata \<Rightarrow> http_response \<Rightarrow> http_response" where
  "apply_content_type md resp =
     (if truthy_str (content_type md)
      then set_header ''Content-Type'' (HStr (the (content_type md))) resp else resp)"

definition apply_content_name :: "metadata \<Rightarrow> http_response \<Rightarrow> http_response" where
  "apply_content_name md resp =
     (if truthy_str (content_name md)
      then set_header ''Content-Disposition'' (HStr (the (content_name md))) resp else resp)"

subsection \<open>\<open>SingleResourceAsyncHttpTransport.transport\<close>\<close>

text \<open>The \<open>except Exception\<close> clause around the business call.\<close>

definition single_except :: "exn \<Rightarrow> outcome" where
  "single_except e =
     (case e of
        ValidationError errs txt \<Rightarrow> Response (HttpResponse 400 errs)
      | ValueError a \<Rightarrow> Response (HttpResponse 400 (case a of Some m \<Rightarrow> m | None \<Rightarrow> []))
      | _ \<Rightarrow> Raised e)"

text \<open>The part of the method after the business call.\<close>

definition single_encode :: "metadata \<Rightarrow> retval \<Rightarrow> outcome" where
  "single_encode md data =
     (case data of
        RNone \<Rightarrow> Raised (Http404 [])
      | RResponse r \<Rightarrow> Response (apply_content_name md (apply_content_type md r))
      | RList items \<Rightarrow>
          Response (apply_content_name md (apply_content_type md
            (JsonResponse (JArr (map model_dump items)))))
      | RModel m \<Rightarrow>
          Response (apply_content_name md (apply_content_type md
            (JsonResponse (model_dump m)))))"

text \<open>
  The binding of \<open>pk\<close>: the keyword arguments after it and the log records it
  writes, or the exception it raises.
\<close>

definition bind_pk ::
  "controller \<Rightarrow> attr \<Rightarrow> resource \<Rightarrow> http_request \<Rightarrow> kwargs \<Rightarrow> exn + (kwargs \<times> log list)" where
  "bind_pk c controller_handler res request kw =
     (let spec = get_controller_handler_spec controller_handler in
      if ''pk'' \<in> set (spec_args spec) then
        (case map_of (model_fields (Retrieve res)) (res_pk res) of
           None \<Rightarrow>
             (case map_of kw (res_pk res) of
                None \<Rightarrow> Inl (OtherException ''KeyError'')
              | Some v \<Rightarrow>
                  Inr (AList.update ''pk'' v (AList.delete (res_pk res) kw),
                       [LogCritical (ctrl_name c) (req_path request)]))
         | Some annotation \<Rightarrow>
             (case map_of kw (res_pk res) of
                None \<Rightarrow> Inl (OtherException ''KeyError'')
              | Some v \<Rightarrow>
                  (case construct annotation v of
                     Inl e \<Rightarrow> if is_ValueError e then Inl (Http404 []) else Inl e
                   | Inr w \<Rightarrow>
                       Inr (AList.update ''pk'' w (AList.delete (res_pk res) kw), []))))
      else Inr (kw, []))"

definition single_transport ::
  "controller \<Rightarrow> metadata \<Rightarrow> attr \<Rightarrow> resource \<Rightarrow> http_request \<Rightarrow> kwargs \<Rightarrow> run" where
  "single_transport c md controller_handler res request kw =
     (if \<not> has_key (res_pk res) kw
      then \<lparr>outcome = Raised (Http404 ''Missing retrieve resource pk''), calls = [], logs = []\<rparr>
      else
        (case bind_pk c controller_handler res request kw of
           Inl e \<Rightarrow> \<lparr>outcome = Raised e, calls = [], logs = []\<rparr>
         | Inr (kw1, lg) \<Rightarrow>
             if \<not> check_permission c request
             then \<lparr>outcome = Response (HttpResponse 403 []), calls = [], logs = lg\<rparr>
             else
               (let h = callable_of controller_handler in
                case clean_args (func_spec h) (extra_params request) of
                  Inl e \<Rightarrow> \<lparr>outcome = single_except e, calls = [], logs = lg\<rparr>
                | Inr extra \<Rightarrow>
                    (let args = dict_union (AList.delete (res_pk res) extra) kw1 in
                     case func_body h args md of
                       (Inl e, md1) \<Rightarrow>
                         \<lparr>outcome = single_except e, calls = [(func_name h, args)], logs = lg\<rparr>
                     | (Inr data, md1) \<Rightarrow>
                         \<lparr>outcome = single_encode md1 data,
                          calls = [(func_name h, args)], logs = lg\<rparr>))))"

subsection \<open>\<open>ManyResourceAsyncHttpTransport.transport\<close>\<close>

definition many_except :: "exn \<Rightarrow> outcome \<times> log list" where
  "many_except e =
     (case e of
        ValidationError errs txt \<Rightarrow> (Response (HttpResponse 400 errs), [])
      | ValueError a \<Rightarrow> (Response (HttpResponse 400 (case a of Some m \<Rightarrow> m | None \<Rightarrow> [])), [])
      | _ \<Rightarrow> (Raised e, [LogException ''Transport Exc'']))"

definition many_encode :: "metadata \<Rightarrow> retval \<Rightarrow> outcome" where
  "many_encode md data =
     (case data of
        RNone \<Rightarrow> Raised (Http404 [])
      | RResponse r \<Rightarrow>
          Response (apply_content_name md (apply_content_type md (apply_total_count md r)))
      | RList items \<Rightarrow>
          Response (apply_content_name md (apply_content_type md (apply_total_count md
            (JsonResponse (JArr (map model_dump items))))))
      | RModel m \<Rightarrow>
          Response (apply_content_name md (apply_content_type md (apply_total_count md
            (JsonResponse (model_dump m))))))"

definition many_transport ::
  "controller \<Rightarrow> metadata \<Rightarrow> attr \<Rightarrow> resource \<Rightarrow> http_request \<Rightarrow> kwargs \<Rightarrow> run" where
  "many_transport c md controller_handler res request kw =
     (let extra = extra_params request in
      if \<not> check_permission c request
      then \<lparr>outcome = Response (HttpResponse 403 []), calls = [], logs = []\<rparr>
      else
        (let h = callable_of controller_handler in
         case clean_args (func_spec h) (dict_union extra kw) of
           Inl e \<Rightarrow> \<lparr>outcome = fst (many_except e), calls = [], logs = snd (many_except e)\<rparr>
         | Inr args \<Rightarrow>
             (case func_body h args md of
                (Inl e, md1) \<Rightarrow>
                  \<lparr>outcome = fst (many_except e), calls = [(func_name h, args)],
                   logs = snd (many_except e)\<rparr>
              | (Inr data, md1) \<Rightarrow>
                  \<lparr>outcome = many_encode md1 data, calls = [(func_name h, args)], logs = []\<rparr>)))"

subsection \<open>\<open>BaseAsyncHttpTransport\<close>: the verb methods\<close>

datatype transport_kind = Single | Many

definition transport ::
  "transport_kind \<Rightarrow> controller \<Rightarrow> metadata \<Rightarrow> attr \<Rightarrow> resource \<Rightarrow> http_request \<Rightarrow> kwargs \<Rightarrow> run" where
  "transport k = (case k of Single \<Rightarrow> single_transport | Many \<Rightarrow> many_transport)"

definition raises :: "exn \<Rightarrow> run" where
  "raises e = \<lparr>outcome = Raised e, calls = [], logs = []\<rparr>"

text \<open>
  The call \<open>self.transport(controller_handler, resource, request, context=context, **kw)\<close>
  of \<open>transport(self, handler, resource, request, context, *args, **kwargs)\<close>.
\<close>

definition transport_call ::
  "transport_kind \<Rightarrow> controller \<Rightarrow> metadata \<Rightarrow> attr \<Rightarrow> resource \<Rightarrow> http_request \<Rightarrow> kwargs \<Rightarrow> run" where
  "transport_call k c md controller_handler res request kw =
     (if keyword_clash [''self'', ''handler'', ''resource'', ''request'', ''context''] kw
      then raises multiple_values
      else transport k c md controller_handler res request kw)"

definition bad_request :: "string \<Rightarrow> run" where
  "bad_request msg =
     \<lparr>outcome = Response (HttpResponseBadRequest msg), calls = [], logs = []\<rparr>"

fun validate_items :: "schema \<Rightarrow> json list \<Rightarrow> exn + pyval list" where
  "validate_items m [] = Inr []"
| "validate_items m (item # rest) =
     (case model_validate m item of
        Inl e \<Rightarrow> Inl e
      | Inr x \<Rightarrow>
          (case validate_items m rest of
             Inl e \<Rightarrow> Inl e
           | Inr xs \<Rightarrow> Inr (PModel x # xs)))"

definition validate_payload :: "schema \<Rightarrow> json \<Rightarrow> exn + pyval" where
  "validate_payload m payload =
     (case payload of
        JArr items \<Rightarrow>
          (case validate_items m items of Inl e \<Rightarrow> Inl e | Inr xs \<Rightarrow> Inr (PList xs))
      | _ \<Rightarrow>
          (case model_validate m payload of Inl e \<Rightarrow> Inl e | Inr x \<Rightarrow> Inr (PModel x)))"

definition idempotent_method ::
  "transport_kind \<Rightarrow> controller \<Rightarrow> metadata \<Rightarrow> http_request \<Rightarrow> attr \<Rightarrow> resource \<Rightarrow>
   schema option \<Rightarrow> kwargs \<Rightarrow> run" where
  "idempotent_method k c md request controller_handler res model kw =
     (if req_content_type request \<noteq> ''application/json'' \<and> req_method request \<noteq> Some DELETE
      then bad_request (''Content Type '' @ req_content_type request @ '' not allowed !'')
      else
        (case model of
           None \<Rightarrow> transport_call k c md controller_handler res request kw
         | Some m \<Rightarrow>
             (case req_body request of
                EmptyBody \<Rightarrow> bad_request ''Request has empty body !''
              | Undecodable msg \<Rightarrow> bad_request msg
              | Decoded payload \<Rightarrow>
                  (case validate_payload m payload of
                     Inl e \<Rightarrow>
                       if is_ValueError e then bad_request (str_exn e)
                       else raises e
                   | Inr data \<Rightarrow>
                       transport_call k c md controller_handler res request
                         (AList.update ''data'' data kw)))))"

text \<open>
  The call \<open>self._idempotent_method(request, controller_handler, resource,
  context=context, model=m, **kw)\<close> that \<open>post\<close>, \<open>put\<close> and \<open>delete\<close> make.
\<close>

definition idempotent_call ::
  "transport_kind \<Rightarrow> controller \<Rightarrow> metadata \<Rightarrow> http_request \<Rightarrow> attr \<Rightarrow> resource \<Rightarrow>
   schema option \<Rightarrow> kwargs \<Rightarrow> run" where
  "idempotent_call k c md request controller_handler res model kw =
     (if keyword_clash
           [''self'', ''request'', ''controller_handler'', ''resource'', ''context'', ''model''] kw
      then raises multiple_values
      else idempotent_method k c md request controller_handler res model kw)"

text \<open>\<open>if resp.status_code == 200: resp.status_code = s\<close>, on a call that returned.\<close>

definition rewrite_status :: "nat \<Rightarrow> run \<Rightarrow> run" where
  "rewrite_status s r =
     (case outcome r of
        Response resp \<Rightarrow>
          if status_code resp = 200
          then r\<lparr>outcome := Response (resp\<lparr>status_code := s\<rparr>)\<rparr> else r
      | Raised e \<Rightarrow> r)"

definition get ::
  "transport_kind \<Rightarrow> controller \<Rightarrow> metadata \<Rightarrow> http_request \<Rightarrow> attr \<Rightarrow> resource \<Rightarrow> kwargs \<Rightarrow> run" where
  "get k c md request controller_handler res kw =
     transport_call k c md controller_handler res request
       (dict_union (extra_params request) kw)"

definition post ::
  "transport_kind \<Rightarrow> controller \<Rightarrow> metadata \<Rightarrow> http_request \<Rightarrow> attr \<Rightarrow> resource \<Rightarrow> kwargs \<Rightarrow> run" where
  "post k c md request controller_handler res kw =
     rewrite_status 201
       (idempotent_call k c md request controller_handler res (Some (Create res)) kw)"

definition put ::
  "transport_kind \<Rightarrow> controller \<Rightarrow> metadata \<Rightarrow> http_request \<Rightarrow> attr \<Rightarrow> resource \<Rightarrow> kwargs \<Rightarrow> run" where
  "put k c md request controller_handler res kw =
     idempotent_call k c md request controller_handler res (Some (Update res)) kw"

definition delete ::
  "transport_kind \<Rightarrow> controller \<Rightarrow> metadata \<Rightarrow> http_request \<Rightarrow> attr \<Rightarrow> resource \<Rightarrow> kwargs \<Rightarrow> run" where
  "delete k c md request controller_handler res kw =
     rewrite_status 204
       (idempotent_call k c md request controller_handler res None kw)"

subsection \<open>Endpoint classes and \<open>dispatch\<close>\<close>

text \<open>
  An endpoint class generated by \<open>create_type_for\<close>: the engine it derives from,
  its controller and its verb map. A missing or empty \<open>method_map\<close> (written \<open>[]\<close>)
  leaves the verb map of the engine in place.
\<close>

record transport_cls =
  tc_kind :: transport_kind
  tc_Controller :: controller
  METHOD_MAP :: "(verb \<times> string) list"

definition default_METHOD_MAP :: "transport_kind \<Rightarrow> (verb \<times> string) list" where
  "default_METHOD_MAP k =
     (case k of
        Single \<Rightarrow> [(GET, ''get_one''), (PUT, ''update_one''), (DELETE, ''delete_one'')]
      | Many \<Rightarrow> [(GET, ''get_many''), (PUT, ''update_many''), (DELETE, ''delete_many'')])"

definition create_type_for ::
  "transport_kind \<Rightarrow> controller \<Rightarrow> (verb \<times> string) list \<Rightarrow> transport_cls" where
  "create_type_for k c method_map =
     \<lparr>tc_kind = k, tc_Controller = c,
      METHOD_MAP = (if method_map \<noteq> [] then method_map else default_METHOD_MAP k)\<rparr>"

text \<open>\<open>_get_controller_method\<close> returns a method name, nothing, or a response.\<close>

datatype resolved = Name "string option" | Early http_response

definition base_get_controller_method :: "transport_cls \<Rightarrow> http_request \<Rightarrow> string option" where
  "base_get_controller_method t request =
     (case req_method request of
        None \<Rightarrow> None
      | Some method \<Rightarrow> map_of (METHOD_MAP t) method)"

fun is_json_list :: "json \<Rightarrow> bool" where
  "is_json_list (JArr xs) = True"
| "is_json_list j = False"

definition many_get_controller_method :: "transport_cls \<Rightarrow> http_request \<Rightarrow> resolved" where
  "many_get_controller_method t request =
     (if req_method request = Some POST then
        (if req_content_type request = ''application/json'' then
           (case req_body request of
              EmptyBody \<Rightarrow> Early (HttpResponseBadRequest ''Request has empty body !'')
            | Undecodable msg \<Rightarrow> Early (HttpResponseBadRequest msg)
            | Decoded data \<Rightarrow>
                (let controller_method = base_get_controller_method t request;
                     controller_method1 =
                       (if controller_method = None then Some ''create_one''
                        else controller_method);
                     controller_method2 =
                       (if controller_method1 = Some ''create_one'' \<and> is_json_list data
                        then Some ''create_many'' else controller_method1)
                 in Name controller_method2))
         else Early (HttpResponseBadRequest
                (''Content Type '' @ req_content_type request @ '' not allowed !'')))
      else Name (base_get_controller_method t request))"

definition get_controller_method :: "transport_cls \<Rightarrow> http_request \<Rightarrow> resolved" where
  "get_controller_method t request =
     (case tc_kind t of
        Single \<Rightarrow> Name (base_get_controller_method t request)
      | Many \<Rightarrow> many_get_controller_method t request)"

definition http_method_not_allowed :: run where
  "http_method_not_allowed =
     \<lparr>outcome = Response HttpResponseNotAllowed, calls = [], logs = []\<rparr>"

text \<open>
  \<open>View.dispatch(self, request, *args, **kwargs)\<close>: the method of the endpoint named
  after the verb, called as \<open>handler(request, **kwargs)\<close>. The handler, the resource
  and the context, which \<open>dispatch\<close> has put into the keyword arguments, are
  arguments of their own here, and \<open>kw\<close> is the rest.
\<close>

definition view_dispatch ::
  "transport_cls \<Rightarrow> metadata \<Rightarrow> http_request \<Rightarrow> attr \<Rightarrow> resource \<Rightarrow> kwargs \<Rightarrow> run" where
  "view_dispatch t md request controller_handler res kw =
     (if keyword_clash [''self'', ''request''] kw then raises multiple_values else
      case req_method request of
        Some GET \<Rightarrow> get (tc_kind t) (tc_Controller t) md request controller_handler res kw
      | Some POST \<Rightarrow> post (tc_kind t) (tc_Controller t) md request controller_handler res kw
      | Some PUT \<Rightarrow> put (tc_kind t) (tc_Controller t) md request controller_handler res kw
      | Some DELETE \<Rightarrow> delete (tc_kind t) (tc_Controller t) md request controller_handler res kw
      | None \<Rightarrow> http_method_not_allowed)"

text \<open>
  The call \<open>self.dispatch(request, **kw)\<close> with the keyword arguments that the URL
  pattern captured, and then \<open>dispatch\<close>. The controller instance is created here,
  with a fresh \<open>Metadata\<close>; the entries \<open>controller_handler\<close>, \<open>resource\<close> and
  \<open>context\<close> of the keyword arguments are overwritten.
\<close>

definition dispatch :: "transport_cls \<Rightarrow> http_request \<Rightarrow> kwargs \<Rightarrow> run" where
  "dispatch t request kw =
     (if keyword_clash [''self'', ''request''] kw then raises multiple_values else
      case get_controller_method t request of
        Early resp \<Rightarrow> \<lparr>outcome = Response resp, calls = [], logs = []\<rparr>
      | Name None \<Rightarrow> http_method_not_allowed
      | Name (Some controller_method) \<Rightarrow>
          if controller_method \<noteq> [] \<and> has_key controller_method (ctrl_attrs (tc_Controller t))
          then
            (case map_of (ctrl_attrs (tc_Controller t)) (py_lower controller_method) of
               None \<Rightarrow>
                 \<lparr>outcome = Raised (AttributeError (py_lower controller_method)),
                  calls = [], logs = []\<rparr>
             | Some controller_handler \<Rightarrow>
                 (let res0 = ctrl_Resource (tc_Controller t);
                      res = (case controller_handler of
                               Action m \<Rightarrow> (case mm_resource m of Some r \<Rightarrow> r | None \<Rightarrow> res0)
                             | Method h \<Rightarrow> res0)
                  in view_dispatch t Metadata request controller_handler res
                       (AList.delete ''context'' (AList.delete ''resource''
                          (AList.delete ''controller_handler'' kw)))))
          else http_method_not_allowed)"

section \<open>The router\<close>

record path_config =
  pc_route :: string
  pc_view :: transport_cls
  pc_name :: string

record http_router =
  base_url :: string
  routes :: "path_config list"

definition strip_slash :: "string \<Rightarrow> string" where
  "strip_slash url = (case url of c # cs \<Rightarrow> if c = CHR ''/'' then cs else url | [] \<Rightarrow> url)"

definition HttpRouter :: "string \<Rightarrow> http_router" where
  "HttpRouter b = \<lparr>base_url = strip_slash b, routes = []\<rparr>"

text \<open>The scan of \<open>dir(controller)\<close> for actions.\<close>

fun scan_mappings :: "(string \<times> attr) list \<Rightarrow> method_mapping list \<Rightarrow> method_mapping list" where
  "scan_mappings [] mappings = mappings"
| "scan_mappings ((a, val) # rest) mappings =
     (if take 2 a \<noteq> ''__''
      then (case val of
              Action m \<Rightarrow> scan_mappings rest (mappings @ [m])
            | Method h \<Rightarrow> scan_mappings rest mappings)
      else scan_mappings rest mappings)"

definition action_path_config ::
  "http_router \<Rightarrow> string \<Rightarrow> string \<Rightarrow> controller \<Rightarrow> method_mapping \<Rightarrow> path_config" where
  "action_path_config r url retrieve_pk_url c act_map =
     (if mm_detail act_map then
        \<lparr>pc_route = base_url r @ ''/'' @ url @ retrieve_pk_url @ ''/'' @ mm_url_path act_map,
         pc_view = create_type_for Single c (build_methods_map act_map),
         pc_name = url @ ''-retrieve-'' @ func_name (mm_func act_map)\<rparr>
      else
        \<lparr>pc_route = base_url r @ ''/'' @ url @ ''/'' @ mm_url_path act_map,
         pc_view = create_type_for Many c (build_methods_map act_map),
         pc_name = url @ ''-many-'' @ func_name (mm_func act_map)\<rparr>)"

fun append_actions ::
  "http_router \<Rightarrow> string \<Rightarrow> string \<Rightarrow> controller \<Rightarrow> method_mapping list \<Rightarrow>
   path_config list \<Rightarrow> path_config list" where
  "append_actions r url retrieve_pk_url c [] rs = rs"
| "append_actions r url retrieve_pk_url c (act_map # rest) rs =
     append_actions r url retrieve_pk_url c rest
       (rs @ [action_path_config r url retrieve_pk_url c act_map])"

definition register :: "http_router \<Rightarrow> string \<Rightarrow> controller \<Rightarrow> http_router" where
  "register r url0 c =
     (let url = strip_slash url0;
          pk = res_pk (ctrl_Resource c);
          mappings = scan_mappings (ctrl_attrs c) [];
          retrieve_pk_url = ''/<'' @ pk @ ''>'';
          rs1 = append_actions r url retrieve_pk_url c mappings (routes r);
          rs2 = rs1 @ [\<lparr>pc_route = base_url r @ ''/'' @ url @ retrieve_pk_url,
                        pc_view = create_type_for Single c [],
                        pc_name = url @ ''-retrieve''\<rparr>];
          rs3 = rs2 @ [\<lparr>pc_route = base_url r @ ''/'' @ url,
                        pc_view = create_type_for Many c [],
                        pc_name = url @ ''-many''\<rparr>]
      in r\<lparr>routes := rs3\<rparr>)"

section \<open>The schema generator\<close>

definition model_ref_name :: "schema \<Rightarrow> string" where
  "model_ref_name m = schema_name m"

fun is_NoneType :: "type_hint \<Rightarrow> bool" where
  "is_NoneType HNoneType = True"
| "is_NoneType t = False"

definition PRIMITIVE_MAP :: "prim \<Rightarrow> (string \<times> json) list" where
  "PRIMITIVE_MAP p =
     (case p of
        PrimStr \<Rightarrow> [(''type'', JStr ''string'')]
      | PrimInt \<Rightarrow> [(''type'', JStr ''integer'')]
      | PrimFloat \<Rightarrow> [(''type'', JStr ''number'')]
      | PrimBool \<Rightarrow> [(''type'', JStr ''boolean'')]
      | PrimDict \<Rightarrow> [(''type'', JStr ''object'')]
      | PrimList \<Rightarrow> [(''type'', JStr ''array'')])"

definition model_ref :: "schema \<Rightarrow> (string \<times> json) list" where
  "model_ref m = [(''$ref'', JStr (''#/components/schemas/'' @ model_ref_name m))]"

function schema_from_type :: "type_hint \<Rightarrow> (string \<times> json) list" where
  "schema_from_type HAny = []"
| "schema_from_type HNone = []"
| "schema_from_type (HModel m) = model_ref m"
| "schema_from_type (HUnion args) =
     (if args \<noteq> [] then
        (let non_none = filter (\<lambda>a. \<not> is_NoneType a) args in
         if length non_none = 1 \<and> length non_none \<noteq> length args then
           (let sch = schema_from_type (hd non_none) in
            if has_key ''$ref'' sch
            then [(''allOf'', JArr [JObj sch]), (''nullable'', JBool True)]
            else AList.update ''nullable'' (JBool True) sch)
         else [(''oneOf'', JArr (map (\<lambda>a. JObj (schema_from_type a)) non_none))])
      else [(''type'', JStr ''string'')])"
| "schema_from_type (HList args) =
     (if args \<noteq> []
      then [(''type'', JStr ''array''), (''items'', JObj (schema_from_type (hd args)))]
      else [(''type'', JStr ''string'')])"
| "schema_from_type (HDict args) = [(''type'', JStr ''object'')]"
| "schema_from_type (HPrim p) = PRIMITIVE_MAP p"
| "schema_from_type HNoneType = [(''type'', JStr ''string'')]"
| "schema_from_type HOther = [(''type'', JStr ''string'')]"
  by pat_completeness auto

termination schema_from_type
proof (relation "measure size")
  have mem: "x \<in> set xs \<Longrightarrow> size x < Suc (size_list size xs)"
    for x :: type_hint and xs
    by (induction xs) auto
  show "wf (measure size)" by simp
  show "(hd x, HUnion args) \<in> measure size"
    if "args \<noteq> []" "x = filter (\<lambda>a. \<not> is_NoneType a) args"
      "length x = 1 \<and> length x \<noteq> length args"
    for args :: "type_hint list" and x
  proof -
    from that have "x \<noteq> []" by auto
    then have "hd x \<in> set x" by (rule hd_in_set)
    with that have "hd x \<in> set args" by simp
    then show ?thesis using mem [of "hd x" args] by simp
  qed
  show "(xa, HUnion args) \<in> measure size"
    if "x = filter (\<lambda>a. \<not> is_NoneType a) args" "xa \<in> set x"
    for args :: "type_hint list" and x xa
  proof -
    from that have "xa \<in> set args" by simp
    then show ?thesis using mem [of xa args] by simp
  qed
  show "(hd args, HList args) \<in> measure size" if "args \<noteq> []"
    for args :: "type_hint list"
  proof -
    from that have "hd args \<in> set args" by simp
    then show ?thesis using mem [of "hd args" args] by simp
  qed
qed

definition pydantic_components :: "schema list \<Rightarrow> (string \<times> json) list" where
  "pydantic_components models =
     [(''schemas'', JObj (fold
        (\<lambda>m schemas.
           AList.update (model_ref_name m) (JObj (model_json_schema m))
             (fold (\<lambda>(def_name, def_schema) sch.
                      if has_key def_name sch then sch else sch @ [(def_name, def_schema)])
                (schema_defs m) schemas))
        models []))]"

record operation =
  op_method :: verb
  op_controller :: controller
  op_handler_name :: string
  op_resource :: resource
  op_detail :: bool

text \<open>\<open>prefix_of p s\<close>: \<open>s.startswith(p)\<close>; \<open>contains sub s\<close>: \<open>sub in s\<close>.\<close>

fun prefix_of :: "string \<Rightarrow> string \<Rightarrow> bool" where
  "prefix_of [] s = True"
| "prefix_of (p # ps) [] = False"
| "prefix_of (p # ps) (c # cs) = (p = c \<and> prefix_of ps cs)"

fun contains :: "string \<Rightarrow> string \<Rightarrow> bool" where
  "contains sub [] = (sub = [])"
| "contains sub (c # cs) = (prefix_of sub (c # cs) \<or> contains sub cs)"

text \<open>
  \<open>s.replace(old, new)\<close> for a non-empty \<open>old\<close>; the counter is the number of
  characters of a replaced occurrence that are still to be skipped.
\<close>

fun replace_from :: "string \<Rightarrow> string \<Rightarrow> nat \<Rightarrow> string \<Rightarrow> string" where
  "replace_from old new k [] = []"
| "replace_from old new (Suc k) (c # cs) = replace_from old new k cs"
| "replace_from old new 0 (c # cs) =
     (if prefix_of old (c # cs) then new @ replace_from old new (length old - 1) cs
      else c # replace_from old new 0 cs)"

definition py_replace :: "string \<Rightarrow> string \<Rightarrow> string \<Rightarrow> string" where
  "py_replace old new s = replace_from old new 0 s"

definition is_detail_route :: "string \<Rightarrow> string \<Rightarrow> bool" where
  "is_detail_route route pk = contains (''/<'' @ pk @ ''>'') route"

definition is_many_route :: "string \<Rightarrow> string \<Rightarrow> bool" where
  "is_many_route route pk = (\<not> contains (''/<'' @ pk @ ''>'') route)"

record generator =
  gen_router :: http_router
  gen_title :: string
  gen_version :: string

definition hasattr :: "controller \<Rightarrow> string \<Rightarrow> bool" where
  "hasattr c a = has_key a (ctrl_attrs c)"

definition create_operation :: "controller \<Rightarrow> resource \<Rightarrow> operation" where
  "create_operation c res =
     \<lparr>op_method = POST, op_controller = c, op_handler_name = ''create_one'',
      op_resource = res, op_detail = False\<rparr>"

definition route_operations :: "path_config \<Rightarrow> operation list" where
  "route_operations r =
     (let view_cls = pc_view r;
          c = tc_Controller view_cls;
          res = ctrl_Resource c
      in map (\<lambda>(http_method, handler_name).
                \<lparr>op_method = http_method, op_controller = c, op_handler_name = handler_name,
                 op_resource = res, op_detail = is_detail_route (pc_route r) (res_pk res)\<rparr>)
             (METHOD_MAP view_cls)
         @ (if is_many_route (pc_route r) (res_pk res)
               \<and> (hasattr c ''create_one'' \<or> hasattr c ''create_many'')
            then [create_operation c res] else []))"

definition collect_operations :: "generator \<Rightarrow> operation list" where
  "collect_operations g =
     (let ops = concat (map route_operations (routes (gen_router g)));
          uniq = fold (\<lambda>op d.
                         AList.update
                           (op_method op, ctrl_name (op_controller op), op_handler_name op,
                            op_detail op) op d)
                   ops []
      in map snd uniq)"

fun collect_models_from_type :: "type_hint \<Rightarrow> schema list \<Rightarrow> schema list" where
  "collect_models_from_type HAny out = out"
| "collect_models_from_type HNone out = out"
| "collect_models_from_type (HModel m) out = out @ [m]"
| "collect_models_from_type (HUnion args) out =
     fold (\<lambda>a acc. if \<not> is_NoneType a then collect_models_from_type a acc else acc) args out"
| "collect_models_from_type (HList args) out =
     (case args of [] \<Rightarrow> out | a # rest \<Rightarrow> collect_models_from_type a out)"
| "collect_models_from_type t out = out"

fun dedupe_from :: "schema list \<Rightarrow> string list \<Rightarrow> schema list \<Rightarrow> schema list" where
  "dedupe_from [] seen out = out"
| "dedupe_from (m # ms) seen out =
     (if schema_qualname m \<notin> set seen
      then dedupe_from ms (schema_qualname m # seen) (out @ [m])
      else dedupe_from ms seen out)"

definition dedupe_models :: "schema list \<Rightarrow> schema list" where
  "dedupe_models models = dedupe_from models [] []"

text \<open>
  \<open>__annotations__\<close> of what \<open>getattr(controller, name)\<close> returns: those of the method,
  or, for an action, the field annotations of the \<open>MethodMapping\<close> object it is.
\<close>

definition MethodMapping_annotations :: "(string \<times> type_hint) list" where
  "MethodMapping_annotations =
     [(''methods'', HList [HPrim PrimStr]), (''detail'', HPrim PrimBool),
      (''url_path'', HPrim PrimStr), (''func'', HOther),
      (''resource'', HUnion [HOther, HNoneType])]"

definition annotations_of :: "attr \<Rightarrow> (string \<times> type_hint) list" where
  "annotations_of a =
     (case a of Method h \<Rightarrow> func_hints h | Action m \<Rightarrow> MethodMapping_annotations)"

definition collect_models :: "operation list \<Rightarrow> schema list" where
  "collect_models ops =
     fold (\<lambda>op models.
             (let models1 = models @ [Create (op_resource op), Update (op_resource op),
                                       Retrieve (op_resource op)]
              in case map_of (ctrl_attrs (op_controller op)) (op_handler_name op) of
                   None \<Rightarrow> models1
                 | Some handler \<Rightarrow>
                     fold (\<lambda>(n, ht) acc. collect_models_from_type ht acc)
                       (annotations_of handler) models1))
       ops []"

definition build_responses :: "operation \<Rightarrow> attr option \<Rightarrow> (string \<times> json) list" where
  "build_responses op handler =
     (let retrieve = model_ref (Retrieve (op_resource op));
          schema =
            (case (case handler of None \<Rightarrow> None
                   | Some h \<Rightarrow> map_of (annotations_of h) ''return'') of
               Some t \<Rightarrow> schema_from_type t
             | None \<Rightarrow>
                 (if op_method op = GET then
                    (if op_detail op then retrieve
                     else [(''type'', JStr ''array''), (''items'', JObj retrieve)])
                  else if op_method op = POST then
                    [(''oneOf'', JArr [JObj retrieve,
                        JObj [(''type'', JStr ''array''), (''items'', JObj retrieve)]])]
                  else if op_method op = PUT then retrieve
                  else []))
      in [(''200'', JObj [(''description'', JStr ''OK''),
                          (''content'', JObj [(''application/json'',
                                               JObj [(''schema'', JObj schema)])])]),
          (''400'', JObj [(''description'', JStr ''Bad Request'')]),
          (''403'', JObj [(''description'', JStr ''Forbidden'')]),
          (''404'', JObj [(''description'', JStr ''Not Found'')]),
          (''429'', JObj [(''description'', JStr ''Too Many Requests'')])])"

definition build_request_body :: "operation \<Rightarrow> (string \<times> json) list option" where
  "build_request_body op =
     (if op_method op = PUT then
        Some [(''required'', JBool True),
              (''content'', JObj [(''application/json'',
                 JObj [(''schema'', JObj (model_ref (Update (op_resource op))))])])]
      else if op_method op = POST then
        (let create_ref = model_ref (Create (op_resource op)) in
         Some [(''required'', JBool True),
               (''content'', JObj [(''application/json'',
                  JObj [(''schema'', JObj [(''oneOf'',
                     JArr [JObj create_ref,
                           JObj [(''type'', JStr ''array''),
                                 (''items'', JObj create_ref)]])])])])])
      else None)"

text \<open>
  An operation object. Its \<open>parameters\<close> entry, which \<open>_build_parameters\<close> derives
  from the signature of the handler, is not modelled and is left out.
\<close>

definition build_operation :: "string \<Rightarrow> operation \<Rightarrow> (string \<times> json) list" where
  "build_operation path_str op =
     (let ctrl = op_controller op;
          handler = map_of (ctrl_attrs ctrl) (op_handler_name op);
          operation = [(''summary'', JStr (ctrl_name ctrl @ ''.'' @ op_handler_name op)),
                       (''tags'', JArr [JStr (ctrl_name ctrl)]),
                       (''responses'', JObj (build_responses op handler))]
      in case build_request_body op of
           None \<Rightarrow> operation
         | Some request_body \<Rightarrow> operation @ [(''requestBody'', JObj request_body)])"

definition verb_lower :: "verb \<Rightarrow> string" where
  "verb_lower v =
     (case v of GET \<Rightarrow> ''get'' | POST \<Rightarrow> ''post'' | PUT \<Rightarrow> ''put'' | DELETE \<Rightarrow> ''delete'')"

definition set_path_method ::
  "string \<Rightarrow> verb \<Rightarrow> operation \<Rightarrow> (string \<times> (verb \<times> operation) list) list \<Rightarrow>
   (string \<times> (verb \<times> operation) list) list" where
  "set_path_method path_oa m op by_path =
     AList.update path_oa
       (AList.update m op (case map_of by_path path_oa of None \<Rightarrow> [] | Some d \<Rightarrow> d))
       by_path"

definition route_paths ::
  "path_config \<Rightarrow> (string \<times> (verb \<times> operation) list) list \<Rightarrow>
   (string \<times> (verb \<times> operation) list) list" where
  "route_paths r by_path =
     (let raw = pc_route r;
          view_cls = pc_view r;
          c = tc_Controller view_cls;
          res = ctrl_Resource c;
          path_oa = py_replace (''/<'' @ res_pk res @ ''>'') (''/{'' @ res_pk res @ ''}'') raw;
          by_path1 =
            fold (\<lambda>(http_method, handler_name) d.
                    set_path_method path_oa http_method
                      \<lparr>op_method = http_method, op_controller = c,
                       op_handler_name = handler_name, op_resource = res,
                       op_detail = is_detail_route raw (res_pk res)\<rparr> d)
              (METHOD_MAP view_cls) by_path
      in if is_many_route raw (res_pk res)
            \<and> (hasattr c ''create_one'' \<or> hasattr c ''create_many'')
         then set_path_method path_oa POST (create_operation c res) by_path1
         else by_path1)"

definition build_paths :: "generator \<Rightarrow> (string \<times> json) list" where
  "build_paths g =
     (let by_path = fold route_paths (routes (gen_router g)) [] in
      fold (\<lambda>(p, methods) paths.
              AList.update (if prefix_of ''/'' p then p else ''/'' @ p)
                (JObj (map (\<lambda>(m, op). (verb_lower m, JObj (build_operation p op))) methods))
                paths)
        by_path [])"

definition build :: "generator \<Rightarrow> (string \<times> json) list" where
  "build g =
     (let ops = collect_operations g;
          components = pydantic_components (dedupe_models (collect_models ops));
          paths = build_paths g
      in [(''openapi'', JStr ''3.0.3''),
          (''info'', JObj [(''title'', JStr (gen_title g)), (''version'', JStr (gen_version g))]),
          (''paths'', JObj paths),
          (''components'', JObj components)])"

text \<open>Reading an entry of a JSON object along a list of keys.\<close>

fun json_at :: "string list \<Rightarrow> json \<Rightarrow> json option" where
  "json_at [] j = Some j"
| "json_at (k # ks) (JObj fs) =
     (case map_of fs k of None \<Rightarrow> None | Some j \<Rightarrow> json_at ks j)"
| "json_at (k # ks) j = None"

section \<open>Python types used as annotations\<close>

text \<open>
  \<open>repr\<close> of a string of bytes: the quote is \<open>"\<close> when the string has a \<open>'\<close> and no
  \<open>"\<close>, and \<open>'\<close> otherwise; control characters are escaped.
\<close>

definition hex_digit :: "nat \<Rightarrow> char" where
  "hex_digit n = ''0123456789abcdef'' ! n"

definition repr_char :: "char \<Rightarrow> char \<Rightarrow> string" where
  "repr_char quote c =
     (if c = quote \<or> c = CHR 0x5C then [CHR 0x5C, c]
      else if c = CHR 0x09 then [CHR 0x5C, CHR ''t'']
      else if c = CHR 0x0A then [CHR 0x5C, CHR ''n'']
      else if c = CHR 0x0D then [CHR 0x5C, CHR ''r'']
      else if (of_char c :: nat) < 32 \<or> (of_char c :: nat) = 127
      then [CHR 0x5C, CHR ''x'', hex_digit (of_char c div 16), hex_digit (of_char c mod 16)]
      else [c])"

definition py_repr :: "string \<Rightarrow> string" where
  "py_repr s =
     (let quote = (if CHR 0x27 \<in> set s \<and> CHR 0x22 \<notin> set s then CHR 0x22 else CHR 0x27)
      in [quote] @ concat (map (repr_char quote) s) @ [quote])"

text \<open>
  \<open>int(s)\<close> for a string of ASCII characters, as CPython 3.11 and later parse it:
  surrounding white space is stripped and a sign may come first; then comes the run
  of digits, which single underscores may separate; a run of more than 4300 digits
  is refused; nothing may follow the run.
\<close>

definition is_space :: "char \<Rightarrow> bool" where
  "is_space c = ((of_char c :: nat) \<in> {9, 10, 11, 12, 13, 28, 29, 30, 31, 32})"

definition is_digit :: "char \<Rightarrow> bool" where
  "is_digit c = ((48::nat) \<le> of_char c \<and> of_char c \<le> (57::nat))"

fun digits_value :: "string \<Rightarrow> bool \<Rightarrow> nat \<Rightarrow> nat option" where
  "digits_value [] after_digit acc = (if after_digit then Some acc else None)"
| "digits_value (c # cs) after_digit acc =
     (if is_digit c then digits_value cs True (10 * acc + (of_char c - 48))
      else if c = CHR ''_'' \<and> after_digit then digits_value cs False acc
      else None)"

definition py_strip :: "string \<Rightarrow> string" where
  "py_strip s = rev (dropWhile is_space (rev (dropWhile is_space s)))"

datatype int_literal = Parsed int | Invalid | TooLong nat

definition int_max_str_digits :: nat where
  "int_max_str_digits = 4300"

definition scan_digits :: "string \<Rightarrow> int_literal" where
  "scan_digits body =
     (let run = takeWhile (\<lambda>c. is_digit c \<or> c = CHR ''_'') body;
          rest = dropWhile (\<lambda>c. is_digit c \<or> c = CHR ''_'') body;
          digits = length (filter is_digit run)
      in case digits_value run False 0 of
           None \<Rightarrow> Invalid
         | Some n \<Rightarrow>
             if digits > int_max_str_digits then TooLong digits
             else if rest \<noteq> [] then Invalid
             else Parsed (int n))"

definition int_of_str :: "string \<Rightarrow> int_literal" where
  "int_of_str s =
     (case py_strip s of
        [] \<Rightarrow> Invalid
      | c # cs \<Rightarrow>
          if c = CHR ''-''
          then (case scan_digits cs of Parsed n \<Rightarrow> Parsed (- n) | r \<Rightarrow> r)
          else if c = CHR ''+'' then scan_digits cs
          else scan_digits (c # cs))"

text \<open>The decimal digits of a natural number; the first argument bounds their number.\<close>

fun decimal :: "nat \<Rightarrow> nat \<Rightarrow> string" where
  "decimal 0 n = []"
| "decimal (Suc fuel) n =
     (if n < 10 then [''0123456789'' ! n]
      else decimal fuel (n div 10) @ [''0123456789'' ! (n mod 10)])"

definition str_nat :: "nat \<Rightarrow> string" where
  "str_nat n = decimal (Suc n) n"

fun type_name :: "pyval \<Rightarrow> string" where
  "type_name PNone = ''NoneType''"
| "type_name (PBool b) = ''bool''"
| "type_name (PInt n) = ''int''"
| "type_name (PStr s) = ''str''"
| "type_name (PList xs) = ''list''"
| "type_name (PModel (Model c fs)) = c"

fun int_call :: "pyval \<Rightarrow> exn + pyval" where
  "int_call (PInt n) = Inr (PInt n)"
| "int_call (PBool b) = Inr (PInt (if b then 1 else 0))"
| "int_call (PStr s) =
     (case int_of_str s of
        Parsed n \<Rightarrow> Inr (PInt n)
      | Invalid \<Rightarrow>
          Inl (ValueError (Some (''invalid literal for int() with base 10: '' @ py_repr s)))
      | TooLong digits \<Rightarrow>
          Inl (ValueError (Some
            (''Exceeds the limit (4300 digits) for integer string conversion: value has ''
             @ str_nat digits
             @ '' digits; use sys.set_int_max_str_digits() to increase the limit''))))"
| "int_call v =
     Inl (TypeError (''int() argument must be a string, a bytes-like object or a real number, not ''
            @ py_repr (type_name v)))"

fun is_int :: "pyval \<Rightarrow> bool" where
  "is_int (PInt n) = True"
| "is_int (PBool b) = True"
| "is_int v = False"

definition int_type :: py_type where
  "int_type =
     \<lparr>is_Any = False, has_origin = False,
      isinstance_of = (\<lambda>v. Inr (is_int v)), construct = int_call\<rparr>"




text \<open>\<open>typing.List[...]\<close>, \<open>typing.Optional[...]\<close> and \<open>typing.Any\<close>: none can be called.\<close>

definition typing_List :: py_type where
  "typing_List =
     \<lparr>is_Any = False, has_origin = True,
      isinstance_of =
        (\<lambda>v. Inl (TypeError ''Subscripted generics cannot be used with class and instance checks'')),
      construct = (\<lambda>v. Inl (TypeError ''Type List cannot be instantiated; use list() instead''))\<rparr>"

definition typing_Optional :: py_type where
  "typing_Optional =
     \<lparr>is_Any = False, has_origin = True,
      isinstance_of =
        (\<lambda>v. Inl (TypeError ''Subscripted generics cannot be used with class and instance checks'')),
      construct = (\<lambda>v. Inl (TypeError ''Cannot instantiate typing.Union''))\<rparr>"

definition typing_Any :: py_type where
  "typing_Any =
     \<lparr>is_Any = True, has_origin = False,
      isinstance_of = (\<lambda>v. Inl (TypeError ''typing.Any cannot be used with isinstance()'')),
      construct = (\<lambda>v. Inl (TypeError ''Any cannot be instantiated''))\<rparr>"

text \<open>
  A pydantic model class as an annotation: \<open>isinstance\<close> compares the class, and the
  class cannot be called with a positional argument.
\<close>

fun is_model_of :: "string \<Rightarrow> pyval \<Rightarrow> bool" where
  "is_model_of cls (PModel (Model c fs)) = (c = cls)"
| "is_model_of cls v = False"

definition model_type :: "string \<Rightarrow> py_type" where
  "model_type cls =
     \<lparr>is_Any = False, has_origin = False,
      isinstance_of = (\<lambda>v. Inr (is_model_of cls v)),
      construct =
        (\<lambda>v. Inl (TypeError ''BaseModel.__init__() takes 1 positional argument but 2 were given''))\<rparr>"

section \<open>An example resource and its controller\<close>

text \<open>
  The concrete inputs of the statements below: a resource whose \<open>Create\<close> and
  \<open>Update\<close> have one required integer field \<open>x\<close> and whose \<open>Retrieve\<close> adds the
  integer identity \<open>id\<close>, and a controller over a store of two items, with the
  signatures that \<open>BaseController\<close> and the mixins declare.
\<close>

definition validate_ints :: "string \<Rightarrow> string list \<Rightarrow> json \<Rightarrow> exn + model" where
  "validate_ints cls required obj =
     (case obj of
        JObj fs \<Rightarrow>
          (case filter (\<lambda>f. case map_of fs f of Some (JInt n) \<Rightarrow> False | _ \<Rightarrow> True) required of
             [] \<Rightarrow> Inr (Model cls fs)
           | f # rest \<Rightarrow>
               Inl (ValidationError (''[{loc: '' @ f @ ''}]'') (''1 validation error for '' @ cls)))
      | _ \<Rightarrow> Inl (ValidationError ''[{type: model_type}]'' (''1 validation error for '' @ cls)))"

definition int_property :: "string \<Rightarrow> string \<Rightarrow> string \<times> json" where
  "int_property f title = (f, JObj [(''title'', JStr title), (''type'', JStr ''integer'')])"

definition object_schema ::
  "(string \<times> json) list \<Rightarrow> string list \<Rightarrow> string \<Rightarrow> (string \<times> json) list" where
  "object_schema props required title =
     [(''additionalProperties'', JBool True), (''properties'', JObj props)]
     @ (if required = [] then [] else [(''required'', JArr (map JStr required))])
     @ [(''title'', JStr title), (''type'', JStr ''object'')]"

definition Demo_Create :: schema where
  "Demo_Create =
     \<lparr>schema_qualname = ''DemoResource.Create'', schema_name = ''Create'',
      model_fields = [(''x'', int_type)],
      model_validate = validate_ints ''Create'' [''x''],
      model_json_schema = object_schema [int_property ''x'' ''X''] [''x''] ''Create'',
      schema_defs = []\<rparr>"

definition Demo_Update :: schema where
  "Demo_Update =
     \<lparr>schema_qualname = ''DemoResource.Update'', schema_name = ''Update'',
      model_fields = [(''x'', int_type)],
      model_validate = validate_ints ''Update'' [''x''],
      model_json_schema = object_schema [int_property ''x'' ''X''] [''x''] ''Update'',
      schema_defs = []\<rparr>"

definition Demo_Retrieve :: schema where
  "Demo_Retrieve =
     \<lparr>schema_qualname = ''DemoResource.Retrieve'', schema_name = ''Retrieve'',
      model_fields = [(''x'', int_type), (''id'', int_type)],
      model_validate = validate_ints ''Retrieve'' [''x'', ''id''],
      model_json_schema =
        object_schema [int_property ''x'' ''X'', int_property ''id'' ''Id''] [''x'', ''id'']
          ''Retrieve'',
      schema_defs = []\<rparr>"

definition Base_Create :: schema where
  "Base_Create =
     \<lparr>schema_qualname = ''BaseResource.Create'', schema_name = ''Create'',
      model_fields = [],
      model_validate = validate_ints ''Create'' [],
      model_json_schema = object_schema [] [] ''Create'',
      schema_defs = []\<rparr>"

definition Base_Retrieve :: schema where
  "Base_Retrieve =
     \<lparr>schema_qualname = ''BaseResource.Retrieve'', schema_name = ''Retrieve'',
      model_fields = [],
      model_validate = validate_ints ''Retrieve'' [],
      model_json_schema = object_schema [] [] ''Retrieve'',
      schema_defs = []\<rparr>"

definition DemoResource :: resource where
  "DemoResource =
     \<lparr>res_pk = ''id'', Create = Demo_Create, Update = Demo_Update, Retrieve = Demo_Retrieve\<rparr>"

definition item1 :: model where
  "item1 = Model ''Retrieve'' [(''x'', JInt 123), (''id'', JInt 1)]"

definition item2 :: model where
  "item2 = Model ''Retrieve'' [(''x'', JInt 321), (''id'', JInt 2)]"

definition storage_get :: "pyval \<Rightarrow> model option" where
  "storage_get pk = (if pk = PInt 1 then Some item1 else if pk = PInt 2 then Some item2 else None)"

definition missing_argument :: "string \<Rightarrow> exn" where
  "missing_argument a = TypeError (''missing 1 required positional argument: '' @ py_repr a)"

definition demo_get_one :: handler where
  "demo_get_one =
     \<lparr>func_name = ''get_one'',
      func_spec = \<lparr>spec_args = [''self'', ''pk''],
                   spec_annotations = [(''pk'', int_type), (''return'', typing_Optional)],
                   spec_varkw = Some ''filters''\<rparr>,
      func_hints = [(''pk'', HPrim PrimInt), (''return'', HUnion [HModel Demo_Retrieve, HNoneType])],
      func_body = (\<lambda>kw md.
        case map_of kw ''pk'' of
          None \<Rightarrow> (Inl (missing_argument ''pk''), md)
        | Some pk \<Rightarrow>
            (case storage_get pk of
               None \<Rightarrow> (Inr RNone, md)
             | Some m \<Rightarrow> (Inr (RModel m), md)))\<rparr>"

definition demo_get_many :: handler where
  "demo_get_many =
     \<lparr>func_name = ''get_many'',
      func_spec = \<lparr>spec_args = [''self'', ''order_by'', ''limit'', ''offset''],
                   spec_annotations = [(''order_by'', typing_Any), (''limit'', int_type),
                                       (''offset'', typing_Any), (''return'', typing_List)],
                   spec_varkw = Some ''filters''\<rparr>,
      func_hints = [(''order_by'', HAny), (''limit'', HPrim PrimInt), (''offset'', HAny),
                    (''return'', HList [HModel Demo_Retrieve])],
      func_body = (\<lambda>kw md. (Inr (RList [item1, item2]), md\<lparr>total_count := Some 2\<rparr>))\<rparr>"

fun with_id :: "int \<Rightarrow> pyval \<Rightarrow> model list" where
  "with_id n (PModel (Model c fs)) = [Model ''Retrieve'' (AList.update ''id'' (JInt n) fs)]"
| "with_id n v = []"

definition demo_create_one :: handler where
  "demo_create_one =
     \<lparr>func_name = ''create_one'',
      func_spec = \<lparr>spec_args = [''self'', ''data''],
                   spec_annotations = [(''data'', model_type ''Create''),
                                       (''return'', model_type ''Retrieve'')],
                   spec_varkw = Some ''extra''\<rparr>,
      func_hints = [(''data'', HModel Demo_Create), (''return'', HModel Demo_Retrieve)],
      func_body = (\<lambda>kw md.
        case map_of kw ''data'' of
          None \<Rightarrow> (Inl (missing_argument ''data''), md)
        | Some data \<Rightarrow>
            (case with_id 3 data of
               [] \<Rightarrow> (Inl (AttributeError ''model_dump''), md)
             | m # ms \<Rightarrow> (Inr (RModel m), md)))\<rparr>"

definition demo_create_many :: handler where
  "demo_create_many =
     \<lparr>func_name = ''create_many'',
      func_spec = \<lparr>spec_args = [''self'', ''data''],
                   spec_annotations = [(''data'', typing_List), (''return'', typing_List)],
                   spec_varkw = Some ''extra''\<rparr>,
      func_hints = [(''data'', HList [HModel Base_Create]),
                    (''return'', HList [HModel Base_Retrieve])],
      func_body = (\<lambda>kw md.
        case map_of kw ''data'' of
          Some (PList items) \<Rightarrow>
            (Inr (RList (concat (map (\<lambda>(i, d). with_id (3 + int i) d)
                                   (zip [0..<length items] items)))), md)
        | Some v \<Rightarrow> (Inl (TypeError ''object is not iterable''), md)
        | None \<Rightarrow> (Inl (missing_argument ''data''), md))\<rparr>"

definition demo_update_one :: handler where
  "demo_update_one =
     \<lparr>func_name = ''update_one'',
      func_spec = \<lparr>spec_args = [''self'', ''pk'', ''data''],
                   spec_annotations = [(''pk'', int_type), (''data'', model_type ''Update''),
                                       (''return'', typing_Optional)],
                   spec_varkw = Some ''extra''\<rparr>,
      func_hints = [(''pk'', HPrim PrimInt), (''data'', HModel Demo_Update),
                    (''return'', HUnion [HModel Demo_Retrieve, HNoneType])],
      func_body = (\<lambda>kw md.
        case (map_of kw ''pk'', map_of kw ''data'') of
          (Some pk, Some (PModel (Model c fs))) \<Rightarrow>
            (case storage_get pk of
               None \<Rightarrow> (Inr RNone, md)
             | Some (Model r old) \<Rightarrow>
                 (Inr (RModel (Model r (fold (\<lambda>(k, v) d. AList.update k v d) fs old))), md))
        | _ \<Rightarrow> (Inl (missing_argument ''data''), md))\<rparr>"

definition demo_delete_one :: handler where
  "demo_delete_one =
     \<lparr>func_name = ''delete_one'',
      func_spec = \<lparr>spec_args = [''self'', ''pk''],
                   spec_annotations = [(''pk'', typing_Any), (''return'', typing_Optional)],
                   spec_varkw = Some ''extra''\<rparr>,
      func_hints = [(''pk'', HAny), (''return'', HUnion [HModel Base_Retrieve, HNoneType])],
      func_body = (\<lambda>kw md.
        case map_of kw ''pk'' of
          None \<Rightarrow> (Inl (missing_argument ''pk''), md)
        | Some pk \<Rightarrow>
            (case storage_get pk of
               None \<Rightarrow> (Inr RNone, md)
             | Some m \<Rightarrow> (Inr (RModel m), md)))\<rparr>"

text \<open>\<open>delete_many\<close> deletes nothing and returns the empty list when no \<open>id\<close> is given.\<close>

fun delete_each :: "pyval list \<Rightarrow> exn + model list" where
  "delete_each [] = Inr []"
| "delete_each (v # vs) =
     (case int_call v of
        Inl e \<Rightarrow> Inl e
      | Inr pk \<Rightarrow>
          (case delete_each vs of
             Inl e \<Rightarrow> Inl e
           | Inr ms \<Rightarrow>
               Inr ((case storage_get pk of None \<Rightarrow> [] | Some m \<Rightarrow> [m]) @ ms)))"

definition demo_delete_many :: handler where
  "demo_delete_many =
     \<lparr>func_name = ''delete_many'',
      func_spec = \<lparr>spec_args = [''self'', ''id''],
                   spec_annotations = [(''id'', typing_List), (''return'', typing_List)],
                   spec_varkw = Some ''extra''\<rparr>,
      func_hints = [(''id'', HList [HPrim PrimInt]), (''return'', HList [HModel Base_Retrieve])],
      func_body = (\<lambda>kw md.
        case map_of kw ''id'' of
          Some (PList (v # vs)) \<Rightarrow>
            (case delete_each (v # vs) of
               Inl e \<Rightarrow> (Inl e, md)
             | Inr ms \<Rightarrow> (Inr (RList ms), md))
        | _ \<Rightarrow> (Inr (RList []), md))\<rparr>"

text \<open>Two actions: \<open>history\<close> on one item, \<open>recent\<close> on the collection, for GET and POST.\<close>

definition demo_history :: method_mapping where
  "demo_history =
     \<lparr>mm_methods = [GET], mm_detail = True, mm_url_path = ''history'',
      mm_func =
        \<lparr>func_name = ''history'',
         func_spec = \<lparr>spec_args = [''self'', ''pk''], spec_annotations = [],
                      spec_varkw = Some ''extra''\<rparr>,
         func_hints = [],
         func_body = (\<lambda>kw md. (Inr (RList [item1]), md))\<rparr>,
      mm_resource = None\<rparr>"

definition demo_recent :: method_mapping where
  "demo_recent =
     \<lparr>mm_methods = [GET, POST], mm_detail = False, mm_url_path = ''recent'',
      mm_func =
        \<lparr>func_name = ''recent'',
         func_spec = \<lparr>spec_args = [''self''], spec_annotations = [],
                      spec_varkw = Some ''extra''\<rparr>,
         func_hints = [],
         func_body = (\<lambda>kw md. (Inr (RList [item2]), md))\<rparr>,
      mm_resource = None\<rparr>"

definition DemoController :: controller where
  "DemoController =
     \<lparr>ctrl_name = ''DemoController'', ctrl_Resource = DemoResource,
      PERMISSIONS = [], THROTTLERS = [],
      ctrl_attrs =
        [(''create_many'', Method demo_create_many), (''create_one'', Method demo_create_one),
         (''delete_many'', Method demo_delete_many), (''delete_one'', Method demo_delete_one),
         (''get_many'', Method demo_get_many), (''get_one'', Method demo_get_one),
         (''history'', Action demo_history), (''recent'', Action demo_recent),
         (''update_one'', Method demo_update_one)]\<rparr>"

definition denied :: "http_request \<Rightarrow> bool \<times> string option" where
  "denied request = (False, Some ''denied'')"

definition granted :: "http_request \<Rightarrow> bool \<times> string option" where
  "granted request = (True, None)"

definition demo_request :: http_request where
  "demo_request =
     \<lparr>req_method = Some GET, req_content_type = [], req_body = EmptyBody, req_GET = [],
      req_path = ''/api/demo''\<rparr>"

definition demo_router :: http_router where
  "demo_router = register (HttpRouter ''/api'') ''/demo'' DemoController"

section \<open>Dictionaries, bound arguments and calls\<close>









lemma map_of_dict_union:
  "distinct (map fst b) \<Longrightarrow>
   map_of (dict_union a b) k = (case map_of b k of Some v \<Rightarrow> Some v | None \<Rightarrow> map_of a k)"
proof (induction b arbitrary: a)
  case Nil
  then show ?case by (simp add: dict_union_def)
next
  case (Cons p b)
  obtain k' v' where p: "p = (k', v')" by (cases p)
  from Cons.prems p have d: "distinct (map fst b)" and fresh: "k' \<notin> fst ` set b" by auto
  have u: "dict_union a (p # b) = dict_union (AList.update k' v' a) b"
    by (simp add: dict_union_def p)
  have "map_of b k' = None" using fresh by (simp add: map_of_eq_None_iff)
  then show ?case
    using Cons.IH [OF d, of "AList.update k' v' a"] u p
    by (cases "k = k'") (simp_all add: update_conv' split: option.splits)
qed







lemma single_transport_calls:
  assumes "has_key (res_pk res) kw"
    and "bind_pk c h res request kw = Inr (kwb, lg)"
    and "check_permission c request"
    and "clean_args (func_spec (callable_of h)) (extra_params request) = Inr extra"
  shows "calls (single_transport c md h res request kw)
     = [(func_name (callable_of h), dict_union (AList.delete (res_pk res) extra) kwb)]"
proof -
  obtain r mdr where f: "func_body (callable_of h)
      (dict_union (AList.delete (res_pk res) extra) kwb) md = (r, mdr)"
    by (cases "func_body (callable_of h) (dict_union (AList.delete (res_pk res) extra) kwb) md")
  show ?thesis using assms f by (cases r) (simp_all add: single_transport_def Let_def)
qed

lemma bind_pk_other:
  assumes "bind_pk c h res request kw = Inr (kwb, lg)"
    and "name \<noteq> res_pk res" and "name \<noteq> ''pk''"
  shows "map_of kwb name = map_of kw name"
  using assms
  by (auto simp add: bind_pk_def Let_def update_conv' delete_conv'
      split: if_splits option.splits sum.splits)

lemma bind_pk_distinct:
  assumes "bind_pk c h res request kw = Inr (kwb, lg)" and "distinct (map fst kw)"
  shows "distinct (map fst kwb)"
  using assms
  by (auto simp add: bind_pk_def Let_def distinct_update distinct_delete
      split: if_splits option.splits sum.splits)

lemma single_transport_query:
  assumes "has_key (res_pk res) kw"
    and "bind_pk c h res request kw = Inr (kwb, lg)"
    and "check_permission c request"
    and "clean_args (func_spec (callable_of h)) (extra_params request) = Inr extra"
    and "distinct (map fst kw)"
    and "name \<noteq> res_pk res" and "name \<noteq> ''pk''"
  shows "\<exists>sargs. calls (single_transport c md h res request kw)
            = [(func_name (callable_of h), sargs)]
          \<and> map_of sargs name
            = (case map_of kw name of Some v \<Rightarrow> Some v | None \<Rightarrow> map_of extra name)"
proof -
  let ?sargs = "dict_union (AList.delete (res_pk res) extra) kwb"
  have "map_of ?sargs name
      = (case map_of kwb name of Some v \<Rightarrow> Some v
         | None \<Rightarrow> map_of (AList.delete (res_pk res) extra) name)"
    using map_of_dict_union [OF bind_pk_distinct [OF assms(2,5)]] .
  then have "map_of ?sargs name
      = (case map_of kw name of Some v \<Rightarrow> Some v | None \<Rightarrow> map_of extra name)"
    using bind_pk_other [OF assms(2,6,7)] assms(6)
    by (simp add: delete_conv' split: option.splits)
  with single_transport_calls [OF assms(1,2,3,4)] show ?thesis by blast
qed

section \<open>Argument binding from query parameters\<close>




section \<open>Routes of a registered controller\<close>

text \<open>The loop over the actions appends one route for each of them, in their order.\<close>

lemma append_actions_eq:
  "append_actions r url p c ms rs = rs @ map (action_path_config r url p c) ms"
  by (induction ms arbitrary: rs) simp_all

lemma prefix_of_append: "prefix_of p (p @ s)"
  by (induction p) simp_all

lemma prefix_of_set: "prefix_of p s \<Longrightarrow> set p \<subseteq> set s"
  by (induction p s rule: prefix_of.induct) auto

lemma contains_append: "contains sub (a @ sub @ b)"
proof (induction a)
  case Nil
  show ?case
  proof (cases "sub @ b")
    case Nil
    then show ?thesis by simp
  next
    case (Cons x xs)
    have "prefix_of sub (sub @ b)" by (rule prefix_of_append)
    then show ?thesis using Cons by simp
  qed
next
  case (Cons x a)
  then show ?case by simp
qed

lemma contains_set: "contains sub s \<Longrightarrow> set sub \<subseteq> set s"
proof (induction s)
  case Nil
  then show ?case by simp
next
  case (Cons x s)
  then show ?case using prefix_of_set [of sub "x # s"] by auto
qed

lemma scan_mappings_eq:
  "scan_mappings attrs ms
     = ms @ concat (map (\<lambda>(a, val). case val of
                           Action m \<Rightarrow> if take 2 a \<noteq> ''__'' then [m] else []
                         | Method h \<Rightarrow> []) attrs)"
proof (induction attrs arbitrary: ms)
  case Nil
  show ?case by simp
next
  case (Cons p attrs)
  obtain a val where p: "p = (a, val)" by (cases p)
  show ?case using Cons.IH by (cases val) (simp_all add: p)
qed

text \<open>
  Claim C8, as the code has it. The scan of the controller collects the actions
  among its attributes, those with a dunder name left out, in the order of the
  attributes. \<open>register\<close> keeps the routes that the router had and appends one
  route for each collected action, in that order, and then the single-entity
  route and the collection route, so every action route comes before the two
  baseline routes of the controller. The route of an action is the single-entity
  path followed by \<open>/\<close> and its \<open>url_path\<close> when \<open>detail\<close> is true, and the
  collection path followed by \<open>/\<close> and its \<open>url_path\<close> when it is false; its
  endpoint is of the matching engine, with the verb map of the action. An action
  route with \<open>detail\<close> true contains the identity segment. One with \<open>detail\<close>
  false contains it exactly when the collection path followed by \<open>/\<close> and the
  \<open>url_path\<close> does, which is excluded when these two have no \<open><\<close> of their own.
\<close>

theorem register_action_routes:
  "let acts = scan_mappings (ctrl_attrs c) [];
       pk = res_pk (ctrl_Resource c);
       many = base_url r @ ''/'' @ strip_slash url0;
       single = many @ ''/<'' @ pk @ ''>'';
       new = routes (register r url0 c);
       n = length (routes r)
   in acts = concat (map (\<lambda>(a, val). case val of
                              Action m \<Rightarrow> if take 2 a \<noteq> ''__'' then [m] else []
                            | Method h \<Rightarrow> []) (ctrl_attrs c))
      \<and> length new = n + length acts + 2
      \<and> take n new = routes r
      \<and> (\<forall>i. i < length acts \<longrightarrow>
            pc_route (new ! (n + i))
              = (if mm_detail (acts ! i) then single else many) @ ''/'' @ mm_url_path (acts ! i)
            \<and> pc_view (new ! (n + i))
              = create_type_for (if mm_detail (acts ! i) then Single else Many) c
                  (build_methods_map (acts ! i))
            \<and> (mm_detail (acts ! i) \<longrightarrow> is_detail_route (pc_route (new ! (n + i))) pk)
            \<and> (\<not> mm_detail (acts ! i) \<longrightarrow>
                 is_detail_route (pc_route (new ! (n + i))) pk
                 = contains (''/<'' @ pk @ ''>'') (many @ ''/'' @ mm_url_path (acts ! i)))
            \<and> (\<not> mm_detail (acts ! i) \<and> CHR ''<'' \<notin> set (many @ mm_url_path (acts ! i)) \<longrightarrow>
                 \<not> is_detail_route (pc_route (new ! (n + i))) pk))
      \<and> pc_route (new ! (n + length acts)) = single
      \<and> pc_view (new ! (n + length acts)) = create_type_for Single c []
      \<and> pc_route (new ! (n + length acts + 1)) = many
      \<and> pc_view (new ! (n + length acts + 1)) = create_type_for Many c []"
proof -
  let ?acts = "scan_mappings (ctrl_attrs c) []"
  let ?pk = "res_pk (ctrl_Resource c)"
  let ?url = "strip_slash url0"
  let ?p = "''/<'' @ ?pk @ ''>''"
  let ?many = "base_url r @ ''/'' @ ?url"
  let ?single = "?many @ ''/<'' @ ?pk @ ''>''"
  let ?sr = "\<lparr>pc_route = ?single, pc_view = create_type_for Single c [],
              pc_name = ?url @ ''-retrieve''\<rparr>"
  let ?mr = "\<lparr>pc_route = ?many, pc_view = create_type_for Many c [],
              pc_name = ?url @ ''-many''\<rparr>"
  let ?new = "routes (register r url0 c)"
  let ?n = "length (routes r)"
  have new_eq: "?new = routes r @ map (action_path_config r ?url ?p c) ?acts @ [?sr, ?mr]"
    by (simp add: register_def Let_def append_actions_eq)
  have len: "length ?new = ?n + length ?acts + 2" by (simp add: new_eq)
  have tk: "take ?n ?new = routes r" by (simp add: new_eq)
  have nth_act: "?new ! (?n + i) = action_path_config r ?url ?p c (?acts ! i)"
    if "i < length ?acts" for i
    using that by (simp add: new_eq nth_append)
  have nth_s: "?new ! (?n + length ?acts) = ?sr"
    by (simp add: new_eq nth_append)
  have nth_m: "?new ! (?n + length ?acts + 1) = ?mr"
    by (simp add: new_eq nth_append)
  have acts_ok:
    "pc_route (?new ! (?n + i))
        = (if mm_detail (?acts ! i) then ?single else ?many) @ ''/'' @ mm_url_path (?acts ! i)
      \<and> pc_view (?new ! (?n + i))
        = create_type_for (if mm_detail (?acts ! i) then Single else Many) c
            (build_methods_map (?acts ! i))
      \<and> (mm_detail (?acts ! i) \<longrightarrow> is_detail_route (pc_route (?new ! (?n + i))) ?pk)
      \<and> (\<not> mm_detail (?acts ! i) \<longrightarrow>
           is_detail_route (pc_route (?new ! (?n + i))) ?pk
           = contains (''/<'' @ ?pk @ ''>'') (?many @ ''/'' @ mm_url_path (?acts ! i)))
      \<and> (\<not> mm_detail (?acts ! i) \<and> CHR ''<'' \<notin> set (?many @ mm_url_path (?acts ! i)) \<longrightarrow>
           \<not> is_detail_route (pc_route (?new ! (?n + i))) ?pk)"
    if i: "i < length ?acts" for i
  proof -
    have rt: "pc_route (?new ! (?n + i))
        = (if mm_detail (?acts ! i) then ?single else ?many) @ ''/'' @ mm_url_path (?acts ! i)"
      by (simp add: nth_act [OF i] action_path_config_def)
    have vw: "pc_view (?new ! (?n + i))
        = create_type_for (if mm_detail (?acts ! i) then Single else Many) c
            (build_methods_map (?acts ! i))"
      by (simp add: nth_act [OF i] action_path_config_def)
    have d1: "is_detail_route (pc_route (?new ! (?n + i))) ?pk" if "mm_detail (?acts ! i)"
    proof -
      have "pc_route (?new ! (?n + i)) = ?many @ ?p @ (''/'' @ mm_url_path (?acts ! i))"
        using that rt by simp
      then show ?thesis
        using contains_append [of ?p ?many "''/'' @ mm_url_path (?acts ! i)"]
        by (simp add: is_detail_route_def)
    qed
    have d2: "\<not> is_detail_route (pc_route (?new ! (?n + i))) ?pk"
      if "\<not> mm_detail (?acts ! i) \<and> CHR ''<'' \<notin> set (?many @ mm_url_path (?acts ! i))"
    proof
      assume "is_detail_route (pc_route (?new ! (?n + i))) ?pk"
      then have "contains ?p (?many @ ''/'' @ mm_url_path (?acts ! i))"
        using that rt by (simp add: is_detail_route_def)
      then have "set ?p \<subseteq> set (?many @ ''/'' @ mm_url_path (?acts ! i))"
        by (rule contains_set)
      moreover have "CHR ''<'' \<in> set ?p" by simp
      ultimately show False using that by auto
    qed
    have d3: "is_detail_route (pc_route (?new ! (?n + i))) ?pk
           = contains (''/<'' @ ?pk @ ''>'') (?many @ ''/'' @ mm_url_path (?acts ! i))"
      if "\<not> mm_detail (?acts ! i)"
      using that rt by (simp add: is_detail_route_def)
    from rt vw d1 d2 d3 show ?thesis by blast
  qed
  have s1: "pc_route (?new ! (?n + length ?acts)) = ?single"
    and s2: "pc_view (?new ! (?n + length ?acts)) = create_type_for Single c []"
    by (simp_all add: nth_s)
  have m1: "pc_route (?new ! (?n + length ?acts + 1)) = ?many"
    and m2: "pc_view (?new ! (?n + length ?acts + 1)) = create_type_for Many c []"
    by (simp_all only: nth_m path_config.simps)
  have sc: "?acts = concat (map (\<lambda>(a, val). case val of
                              Action m \<Rightarrow> if take 2 a \<noteq> ''__'' then [m] else []
                            | Method h \<Rightarrow> []) (ctrl_attrs c))"
    using scan_mappings_eq [of "ctrl_attrs c" "[]"] by simp
  show ?thesis
    unfolding Let_def
    using sc len tk acts_ok s1 s2 m1 m2 by blast
qed


text \<open>
  The theorem at the example controller, registered at \<open>/demo\<close> on a router at
  \<open>/api\<close>: the route of \<open>history\<close> (detail) and the route of \<open>recent\<close> (collection)
  come first, then the two baseline routes.
\<close>

theorem register_action_routes_witness:
  "scan_mappings (ctrl_attrs DemoController) [] = [demo_history, demo_recent]
   \<and> mm_detail demo_history
   \<and> pc_route (routes demo_router ! 0) = ''api/demo/<id>/history''
   \<and> is_detail_route (pc_route (routes demo_router ! 0)) ''id''
   \<and> \<not> mm_detail demo_recent
   \<and> CHR ''<'' \<notin> set (''api/demo'' @ mm_url_path demo_recent)
   \<and> pc_route (routes demo_router ! 1) = ''api/demo/recent''
   \<and> \<not> is_detail_route (pc_route (routes demo_router ! 1)) ''id''
   \<and> pc_route (routes demo_router ! 2) = ''api/demo/<id>''
   \<and> pc_route (routes demo_router ! 3) = ''api/demo''
   \<and> length (routes demo_router) = 4"
proof -
  have acts: "scan_mappings (ctrl_attrs DemoController) [] = [demo_history, demo_recent]"
    by (simp add: DemoController_def)
  have pk: "res_pk (ctrl_Resource DemoController) = ''id''"
    by (simp add: DemoController_def DemoResource_def)
  have base: "base_url (HttpRouter ''/api'') = ''api''" "routes (HttpRouter ''/api'') = []"
    "strip_slash ''/demo'' = ''demo''"
    by (simp_all add: HttpRouter_def strip_slash_def)
  have h: "mm_detail demo_history" "mm_url_path demo_history = ''history''"
    by (simp_all add: demo_history_def)
  have r: "\<not> mm_detail demo_recent" "mm_url_path demo_recent = ''recent''"
    by (simp_all add: demo_recent_def)
  have acts': "concat (map (\<lambda>(a, val). case val of
                              Action m \<Rightarrow> if take 2 a \<noteq> ''__'' then [m] else []
                            | Method h \<Rightarrow> []) (ctrl_attrs DemoController))
      = [demo_history, demo_recent]"
    by (simp add: DemoController_def)
  note T = register_action_routes [of DemoController "HttpRouter ''/api''" "''/demo''",
      unfolded Let_def acts acts' pk base, folded demo_router_def]
  from T have len: "length (routes demo_router) = 4" by simp
  from T have a0: "pc_route (routes demo_router ! 0) = ''api/demo/<id>/history''"
      "is_detail_route (pc_route (routes demo_router ! 0)) ''id''"
    using h by (auto dest!: spec [of _ 0])
  from T have a1: "pc_route (routes demo_router ! 1) = ''api/demo/recent''"
      "\<not> is_detail_route (pc_route (routes demo_router ! 1)) ''id''"
    using r by (auto dest!: spec [of _ 1])
  from T have b: "pc_route (routes demo_router ! 2) = ''api/demo/<id>''"
      "pc_route (routes demo_router ! 3) = ''api/demo''"
    by (simp_all add: numeral_2_eq_2 numeral_3_eq_3)
  show ?thesis using acts h r len a0 a1 b by simp
qed

text \<open>
  The claim as it was stated fails at an action with \<open>detail\<close> false whose
  \<open>url_path\<close> is \<open>by/<id>\<close>: its route lies under the collection path, is served by
  the collection engine, and contains the identity segment.
\<close>

theorem register_action_routes_counterexample:
  "\<not> mm_detail (demo_recent\<lparr>mm_url_path := ''by/<id>''\<rparr>)
   \<and> map mm_url_path (scan_mappings (ctrl_attrs (DemoController\<lparr>ctrl_attrs :=
          [(''recent'', Action (demo_recent\<lparr>mm_url_path := ''by/<id>''\<rparr>))]\<rparr>)) [])
       = [''by/<id>'']
   \<and> map pc_route (routes (register (HttpRouter ''/api'') ''/demo''
         (DemoController\<lparr>ctrl_attrs :=
            [(''recent'', Action (demo_recent\<lparr>mm_url_path := ''by/<id>''\<rparr>))]\<rparr>)))
       = [''api/demo/by/<id>'', ''api/demo/<id>'', ''api/demo'']
   \<and> is_detail_route ''api/demo/by/<id>''
         (res_pk (ctrl_Resource (DemoController\<lparr>ctrl_attrs :=
            [(''recent'', Action (demo_recent\<lparr>mm_url_path := ''by/<id>''\<rparr>))]\<rparr>)))"
  by code_simp

section \<open>Encoding of results\<close>


lemma set_header_status [simp]: "status_code (set_header name v resp) = status_code resp"
  by (simp add: set_header_def)

lemma set_header_content [simp]: "content (set_header name v resp) = content resp"
  by (simp add: set_header_def)

lemma apply_status [simp]:
  "status_code (apply_total_count md resp) = status_code resp"
  "status_code (apply_content_type md resp) = status_code resp"
  "status_code (apply_content_name md resp) = status_code resp"
  by (simp_all add: apply_total_count_def apply_content_type_def apply_content_name_def)

lemma apply_content [simp]:
  "content (apply_total_count md resp) = content resp"
  "content (apply_content_type md resp) = content resp"
  "content (apply_content_name md resp) = content resp"
  by (simp_all add: apply_total_count_def apply_content_type_def apply_content_name_def)

lemma apply_Metadata [simp]:
  "apply_total_count Metadata resp = resp"
  "apply_content_type Metadata resp = resp"
  "apply_content_name Metadata resp = resp"
  by (simp_all add: apply_total_count_def apply_content_type_def apply_content_name_def
      Metadata_def truthy_int_def truthy_str_def)

lemma JsonResponse_simps [simp]:
  "status_code (JsonResponse j) = 200" "content (JsonResponse j) = JsonBody j"
  by (simp_all add: JsonResponse_def)







section \<open>The total-count header\<close>











section \<open>Status codes of the verbs\<close>

lemma outcome_rewrite_status:
  "outcome (rewrite_status s r)
     = (case outcome r of
          Response resp \<Rightarrow> Response (if status_code resp = 200 then resp\<lparr>status_code := s\<rparr> else resp)
        | Raised e \<Rightarrow> Raised e)"
  by (cases "outcome r") (simp_all add: rewrite_status_def)

lemma calls_rewrite_status [simp]: "calls (rewrite_status s r) = calls r"
  by (cases "outcome r") (simp_all add: rewrite_status_def)

lemma logs_rewrite_status [simp]: "logs (rewrite_status s r) = logs r"
  by (cases "outcome r") (simp_all add: rewrite_status_def)

lemma HttpResponse_simps [simp]:
  "status_code (HttpResponse st c) = st" "content (HttpResponse st c) = Bytes c"
  by (simp_all add: HttpResponse_def)

lemma single_except_cases:
  "(\<exists>e'. single_except e = Raised e')
   \<or> (\<exists>resp. single_except e = Response resp \<and> status_code resp = 400)"
  by (cases e) (simp_all add: single_except_def)

lemma many_except_cases:
  "(\<exists>e'. fst (many_except e) = Raised e')
   \<or> (\<exists>resp. fst (many_except e) = Response resp \<and> status_code resp = 400)"
  by (cases e) (simp_all add: many_except_def)

lemma single_encode_status:
  "data \<noteq> RNone \<Longrightarrow>
   \<exists>resp. single_encode mdr data = Response resp \<and> status_code resp = (case data of RResponse r \<Rightarrow> status_code r | _ \<Rightarrow> 200)"
  by (cases data) (simp_all add: single_encode_def)

lemma many_encode_status:
  "data \<noteq> RNone \<Longrightarrow>
   \<exists>resp. many_encode mdr data = Response resp \<and> status_code resp = (case data of RResponse r \<Rightarrow> status_code r | _ \<Rightarrow> 200)"
  by (cases data) (simp_all add: many_encode_def)

lemma single_transport_result:
  "(calls (single_transport c md h res request kw) = []
      \<and> ((\<exists>e. outcome (single_transport c md h res request kw) = Raised e)
           \<or> outcome (single_transport c md h res request kw) = Response (HttpResponse 403 [])
           \<or> (\<exists>resp. outcome (single_transport c md h res request kw) = Response resp \<and> status_code resp = 400)))
    \<or> (\<exists>args r mdr. calls (single_transport c md h res request kw) = [(func_name (callable_of h), args)]
          \<and> func_body (callable_of h) args md = (r, mdr)
          \<and> (case r of
                 Inl e \<Rightarrow> (\<exists>e'. outcome (single_transport c md h res request kw) = Raised e')
                           \<or> (\<exists>resp. outcome (single_transport c md h res request kw) = Response resp \<and> status_code resp = 400)
               | Inr data \<Rightarrow>
                   if data = RNone then outcome (single_transport c md h res request kw) = Raised (Http404 [])
                   else (\<exists>resp. outcome (single_transport c md h res request kw) = Response resp
                           \<and> status_code resp = (case data of RResponse r \<Rightarrow> status_code r | _ \<Rightarrow> 200))))"
proof -
  let ?run = "single_transport c md h res request kw"
  show ?thesis
  proof (cases "has_key (res_pk res) kw")
    case False
    then show ?thesis by (simp add: single_transport_def)
  next
    case k: True
    show ?thesis
    proof (cases "bind_pk c h res request kw")
      case (Inl e)
      then show ?thesis using k by (simp add: single_transport_def)
    next
      case (Inr p)
      obtain kwb lg where p: "p = (kwb, lg)" by (cases p)
      show ?thesis
      proof (cases "check_permission c request")
        case False
        then show ?thesis using k Inr p by (simp add: single_transport_def)
      next
        case perm: True
        show ?thesis
        proof (cases "clean_args (func_spec (callable_of h)) (extra_params request)")
          case (Inl e)
          then have "?run = \<lparr>outcome = single_except e, calls = [], logs = lg\<rparr>"
            using k Inr p perm by (simp add: single_transport_def Let_def)
          then show ?thesis using single_except_cases [of e] by auto
        next
          case extra: (Inr extra)
          let ?args = "dict_union (AList.delete (res_pk res) extra) kwb"
          obtain r mdr where f: "func_body (callable_of h) ?args md = (r, mdr)"
            by (cases "func_body (callable_of h) ?args md")
          show ?thesis
          proof (cases r)
            case (Inl e)
            then have "?run = \<lparr>outcome = single_except e,
                calls = [(func_name (callable_of h), ?args)], logs = lg\<rparr>"
              using k Inr p perm extra f by (simp add: single_transport_def Let_def)
            then show ?thesis using single_except_cases [of e] f Inl by auto
          next
            case (Inr data)
            then have run: "?run = \<lparr>outcome = single_encode mdr data,
                calls = [(func_name (callable_of h), ?args)], logs = lg\<rparr>"
              using k \<open>bind_pk c h res request kw = Inr p\<close> p perm extra f
              by (simp add: single_transport_def Let_def)
            show ?thesis
            proof (cases "data = RNone")
              case True
              then show ?thesis using run f Inr by (auto simp add: single_encode_def)
            next
              case False
              from single_encode_status [OF False, of mdr] run f Inr False
              show ?thesis by auto
            qed
          qed
        qed
      qed
    qed
  qed
qed

lemma many_transport_result:
  "(calls (many_transport c md h res request kw) = []
      \<and> ((\<exists>e. outcome (many_transport c md h res request kw) = Raised e)
           \<or> outcome (many_transport c md h res request kw) = Response (HttpResponse 403 [])
           \<or> (\<exists>resp. outcome (many_transport c md h res request kw) = Response resp \<and> status_code resp = 400)))
    \<or> (\<exists>args r mdr. calls (many_transport c md h res request kw) = [(func_name (callable_of h), args)]
          \<and> func_body (callable_of h) args md = (r, mdr)
          \<and> (case r of
                 Inl e \<Rightarrow> (\<exists>e'. outcome (many_transport c md h res request kw) = Raised e')
                           \<or> (\<exists>resp. outcome (many_transport c md h res request kw) = Response resp \<and> status_code resp = 400)
               | Inr data \<Rightarrow>
                   if data = RNone then outcome (many_transport c md h res request kw) = Raised (Http404 [])
                   else (\<exists>resp. outcome (many_transport c md h res request kw) = Response resp
                           \<and> status_code resp = (case data of RResponse r \<Rightarrow> status_code r | _ \<Rightarrow> 200))))"
proof -
  let ?run = "many_transport c md h res request kw"
  show ?thesis
  proof (cases "check_permission c request")
    case False
    then show ?thesis by (simp add: many_transport_def)
  next
    case perm: True
    show ?thesis
    proof (cases "clean_args (func_spec (callable_of h)) (dict_union (extra_params request) kw)")
      case (Inl e)
      then have "outcome ?run = fst (many_except e)" "calls ?run = []"
        using perm by (simp_all add: many_transport_def Let_def)
      then show ?thesis using many_except_cases [of e] by auto
    next
      case args: (Inr args)
      obtain r mdr where f: "func_body (callable_of h) args md = (r, mdr)"
        by (cases "func_body (callable_of h) args md")
      show ?thesis
      proof (cases r)
        case (Inl e)
        then have "outcome ?run = fst (many_except e)"
            "calls ?run = [(func_name (callable_of h), args)]"
          using perm args f by (simp_all add: many_transport_def Let_def)
        then show ?thesis using many_except_cases [of e] f Inl by auto
      next
        case (Inr data)
        then have run: "outcome ?run = many_encode mdr data"
            "calls ?run = [(func_name (callable_of h), args)]"
          using perm args f by (simp_all add: many_transport_def Let_def)
        show ?thesis
        proof (cases "data = RNone")
          case True
          then show ?thesis using run f Inr by (auto simp add: many_encode_def)
        next
          case False
          from many_encode_status [OF False, of mdr] run f Inr False
          show ?thesis by auto
        qed
      qed
    qed
  qed
qed

lemma transport_call_result:
  "(calls (transport_call k c md h res request kw) = []
      \<and> ((\<exists>e. outcome (transport_call k c md h res request kw) = Raised e)
           \<or> outcome (transport_call k c md h res request kw) = Response (HttpResponse 403 [])
           \<or> (\<exists>resp. outcome (transport_call k c md h res request kw) = Response resp \<and> status_code resp = 400)))
    \<or> (\<exists>args r mdr. calls (transport_call k c md h res request kw) = [(func_name (callable_of h), args)]
          \<and> func_body (callable_of h) args md = (r, mdr)
          \<and> (case r of
                 Inl e \<Rightarrow> (\<exists>e'. outcome (transport_call k c md h res request kw) = Raised e')
                           \<or> (\<exists>resp. outcome (transport_call k c md h res request kw) = Response resp \<and> status_code resp = 400)
               | Inr data \<Rightarrow>
                   if data = RNone then outcome (transport_call k c md h res request kw) = Raised (Http404 [])
                   else (\<exists>resp. outcome (transport_call k c md h res request kw) = Response resp
                           \<and> status_code resp = (case data of RResponse r \<Rightarrow> status_code r | _ \<Rightarrow> 200))))"
proof (cases "keyword_clash [''self'', ''handler'', ''resource'', ''request'', ''context''] kw")
  case True
  then show ?thesis by (simp add: transport_call_def raises_def)
next
  case False
  then have e: "transport_call k c md h res request kw
      = (case k of Single \<Rightarrow> single_transport c md h res request kw
         | Many \<Rightarrow> many_transport c md h res request kw)"
    by (cases k) (simp_all add: transport_call_def transport_def)
  show ?thesis
  proof (cases k)
    case Single
    then have eq: "transport_call k c md h res request kw
        = single_transport c md h res request kw" using e by simp
    show ?thesis unfolding eq by (rule single_transport_result)
  next
    case Many
    then have eq: "transport_call k c md h res request kw
        = many_transport c md h res request kw" using e by simp
    show ?thesis unfolding eq by (rule many_transport_result)
  qed
qed

lemma bad_request_result:
  "calls (bad_request msg) = []"
  "\<exists>resp. outcome (bad_request msg) = Response resp \<and> status_code resp = 400"
  by (simp_all add: bad_request_def HttpResponseBadRequest_def)

lemma raises_result: "calls (raises e) = []" "outcome (raises e) = Raised e"
  by (simp_all add: raises_def)

lemma idempotent_method_result:
  "(calls (idempotent_method k c md request h res model kw) = []
      \<and> ((\<exists>e. outcome (idempotent_method k c md request h res model kw) = Raised e)
           \<or> outcome (idempotent_method k c md request h res model kw) = Response (HttpResponse 403 [])
           \<or> (\<exists>resp. outcome (idempotent_method k c md request h res model kw) = Response resp \<and> status_code resp = 400)))
    \<or> (\<exists>args r mdr. calls (idempotent_method k c md request h res model kw) = [(func_name (callable_of h), args)]
          \<and> func_body (callable_of h) args md = (r, mdr)
          \<and> (case r of
                 Inl e \<Rightarrow> (\<exists>e'. outcome (idempotent_method k c md request h res model kw) = Raised e')
                           \<or> (\<exists>resp. outcome (idempotent_method k c md request h res model kw) = Response resp \<and> status_code resp = 400)
               | Inr data \<Rightarrow>
                   if data = RNone then outcome (idempotent_method k c md request h res model kw) = Raised (Http404 [])
                   else (\<exists>resp. outcome (idempotent_method k c md request h res model kw) = Response resp
                           \<and> status_code resp = (case data of RResponse r \<Rightarrow> status_code r | _ \<Rightarrow> 200))))"
proof -
  let ?run = "idempotent_method k c md request h res model kw"
  have b: ?thesis if "?run = bad_request msg" for msg
    unfolding that using bad_request_result [of msg] by simp
  have r: ?thesis if "?run = raises e" for e
    unfolding that by (simp add: raises_def)
  have t: ?thesis if "?run = transport_call k c md h res request kwd" for kwd
    unfolding that by (rule transport_call_result)
  show ?thesis
  proof (cases "req_content_type request \<noteq> ''application/json''
      \<and> req_method request \<noteq> Some DELETE")
    case True
    then show ?thesis
      by (intro b [of "''Content Type '' @ req_content_type request @ '' not allowed !''"])
        (auto simp add: idempotent_method_def)
  next
    case ct: False
    show ?thesis
    proof (cases model)
      case None
      then show ?thesis using ct by (intro t [of kw]) (auto simp add: idempotent_method_def)
    next
      case (Some m)
      show ?thesis
      proof (cases "req_body request")
        case EmptyBody
        then show ?thesis using ct Some
          by (intro b [of "''Request has empty body !''"]) (auto simp add: idempotent_method_def)
      next
        case (Undecodable msg)
        then show ?thesis using ct Some by (intro b [of msg]) (auto simp add: idempotent_method_def)
      next
        case (Decoded payload)
        show ?thesis
        proof (cases "validate_payload m payload")
          case (Inl e)
          show ?thesis
          proof (cases "is_ValueError e")
            case True
            then show ?thesis using ct Some Decoded Inl
              by (intro b [of "str_exn e"]) (auto simp add: idempotent_method_def)
          next
            case False
            then show ?thesis using ct Some Decoded Inl
              by (intro r [of e]) (auto simp add: idempotent_method_def)
          qed
        next
          case (Inr data)
          then show ?thesis using ct Some Decoded
            by (intro t [of "AList.update ''data'' data kw"]) (auto simp add: idempotent_method_def)
        qed
      qed
    qed
  qed
qed

lemma idempotent_call_result:
  "(calls (idempotent_call k c md request h res model kw) = []
      \<and> ((\<exists>e. outcome (idempotent_call k c md request h res model kw) = Raised e)
           \<or> outcome (idempotent_call k c md request h res model kw) = Response (HttpResponse 403 [])
           \<or> (\<exists>resp. outcome (idempotent_call k c md request h res model kw) = Response resp \<and> status_code resp = 400)))
    \<or> (\<exists>args r mdr. calls (idempotent_call k c md request h res model kw) = [(func_name (callable_of h), args)]
          \<and> func_body (callable_of h) args md = (r, mdr)
          \<and> (case r of
                 Inl e \<Rightarrow> (\<exists>e'. outcome (idempotent_call k c md request h res model kw) = Raised e')
                           \<or> (\<exists>resp. outcome (idempotent_call k c md request h res model kw) = Response resp \<and> status_code resp = 400)
               | Inr data \<Rightarrow>
                   if data = RNone then outcome (idempotent_call k c md request h res model kw) = Raised (Http404 [])
                   else (\<exists>resp. outcome (idempotent_call k c md request h res model kw) = Response resp
                           \<and> status_code resp = (case data of RResponse r \<Rightarrow> status_code r | _ \<Rightarrow> 200))))"
proof (cases "keyword_clash
    [''self'', ''request'', ''controller_handler'', ''resource'', ''context'', ''model''] kw")
  case True
  then show ?thesis by (simp add: idempotent_call_def raises_def)
next
  case False
  then have eq: "idempotent_call k c md request h res model kw
      = idempotent_method k c md request h res model kw"
    by (simp add: idempotent_call_def)
  show ?thesis unfolding eq by (rule idempotent_method_result)
qed

lemma rewrite_status_result:
  assumes "s \<noteq> 200"
    and "(calls run = []
      \<and> ((\<exists>e. outcome run = Raised e)
           \<or> outcome run = Response (HttpResponse 403 [])
           \<or> (\<exists>resp. outcome run = Response resp \<and> status_code resp = 400)))
    \<or> (\<exists>args r mdr. calls run = [(func_name (callable_of h), args)]
          \<and> func_body (callable_of h) args md = (r, mdr)
          \<and> (case r of
                 Inl e \<Rightarrow> (\<exists>e'. outcome run = Raised e')
                           \<or> (\<exists>resp. outcome run = Response resp \<and> status_code resp = 400)
               | Inr data \<Rightarrow>
                   if data = RNone then outcome run = Raised (Http404 [])
                   else (\<exists>resp. outcome run = Response resp
                           \<and> status_code resp = (case data of RResponse r \<Rightarrow> status_code r | _ \<Rightarrow> 200))))"
  shows "(calls (rewrite_status s run) = []
      \<and> ((\<exists>e. outcome (rewrite_status s run) = Raised e)
           \<or> outcome (rewrite_status s run) = Response (HttpResponse 403 [])
           \<or> (\<exists>resp. outcome (rewrite_status s run) = Response resp \<and> status_code resp = 400)))
    \<or> (\<exists>args r mdr. calls (rewrite_status s run) = [(func_name (callable_of h), args)]
          \<and> func_body (callable_of h) args md = (r, mdr)
          \<and> (case r of
                 Inl e \<Rightarrow> (\<exists>e'. outcome (rewrite_status s run) = Raised e')
                           \<or> (\<exists>resp. outcome (rewrite_status s run) = Response resp \<and> status_code resp = 400)
               | Inr data \<Rightarrow>
                   if data = RNone then outcome (rewrite_status s run) = Raised (Http404 [])
                   else (\<exists>resp. outcome (rewrite_status s run) = Response resp
                           \<and> status_code resp = (if (case data of RResponse r \<Rightarrow> status_code r | _ \<Rightarrow> 200) = 200 then s else (case data of RResponse r \<Rightarrow> status_code r | _ \<Rightarrow> 200)))))"
proof -
  have c: "calls (rewrite_status s run) = calls run" by simp
  have o: "outcome (rewrite_status s run)
     = (case outcome run of
          Response resp \<Rightarrow> Response (if status_code resp = 200 then resp\<lparr>status_code := s\<rparr> else resp)
        | Raised e \<Rightarrow> Raised e)"
    by (rule outcome_rewrite_status)
  from assms(2) show ?thesis
  proof (elim disjE exE conjE)
    fix e assume "calls run = []" "outcome run = Raised e"
    then show ?thesis using c o by simp
  next
    assume "calls run = []" "outcome run = Response (HttpResponse 403 [])"
    then show ?thesis using c o by simp
  next
    fix resp assume "calls run = []" "outcome run = Response resp" "status_code resp = 400"
    then show ?thesis using c o by simp
  next
    fix args r mdr
    assume a: "calls run = [(func_name (callable_of h), args)]"
      "func_body (callable_of h) args md = (r, mdr)"
      and b: "case r of
                 Inl e \<Rightarrow> (\<exists>e'. outcome run = Raised e')
                           \<or> (\<exists>resp. outcome run = Response resp \<and> status_code resp = 400)
               | Inr data \<Rightarrow>
                   if data = RNone then outcome run = Raised (Http404 [])
                   else (\<exists>resp. outcome run = Response resp
                           \<and> status_code resp = (case data of RResponse r \<Rightarrow> status_code r | _ \<Rightarrow> 200))"
    have "case r of
                 Inl e \<Rightarrow> (\<exists>e'. outcome (rewrite_status s run) = Raised e')
                           \<or> (\<exists>resp. outcome (rewrite_status s run) = Response resp
                                 \<and> status_code resp = 400)
               | Inr data \<Rightarrow>
                   if data = RNone then outcome (rewrite_status s run) = Raised (Http404 [])
                   else (\<exists>resp. outcome (rewrite_status s run) = Response resp
                           \<and> status_code resp = (if (case data of RResponse r \<Rightarrow> status_code r | _ \<Rightarrow> 200) = 200 then s else (case data of RResponse r \<Rightarrow> status_code r | _ \<Rightarrow> 200)))"
    proof (cases r)
      case (Inl e)
      then show ?thesis using b o by auto
    next
      case (Inr data)
      then show ?thesis using b o assms(1) by (cases "data = RNone") auto
    qed
    then show ?thesis using a c by auto
  qed
qed

lemma result_answers:
  assumes "(calls run = []
      \<and> ((\<exists>e. outcome run = Raised e)
           \<or> outcome run = Response (HttpResponse 403 [])
           \<or> (\<exists>resp. outcome run = Response resp \<and> status_code resp = 400)))
    \<or> (\<exists>args r mdr. calls run = [(func_name (callable_of h), args)]
          \<and> func_body (callable_of h) args md = (r, mdr)
          \<and> (case r of
                 Inl e \<Rightarrow> (\<exists>e'. outcome run = Raised e')
                           \<or> (\<exists>resp. outcome run = Response resp \<and> status_code resp = 400)
               | Inr data \<Rightarrow>
                   if data = RNone then outcome run = Raised (Http404 [])
                   else (\<exists>resp. outcome run = Response resp
                           \<and> status_code resp = f data)))"
  shows "(\<forall>args data.
        (\<exists>mdr. calls run = [(func_name (callable_of h), args)]
           \<and> func_body (callable_of h) args md = (Inr data, mdr) \<and> data \<noteq> RNone) \<longrightarrow>
        (\<exists>resp. outcome run = Response resp \<and> status_code resp = f data))
   \<and> (\<forall>resp. outcome run = Response resp \<longrightarrow>
        resp = HttpResponse 403 [] \<or> status_code resp = 400
        \<or> (\<exists>args data mdr. calls run = [(func_name (callable_of h), args)]
              \<and> func_body (callable_of h) args md = (Inr data, mdr) \<and> data \<noteq> RNone))"
proof (intro conjI allI impI)
  fix args data
  assume "\<exists>mdr. calls run = [(func_name (callable_of h), args)]
           \<and> func_body (callable_of h) args md = (Inr data, mdr) \<and> data \<noteq> RNone"
  then obtain mdr where a: "calls run = [(func_name (callable_of h), args)]"
    "func_body (callable_of h) args md = (Inr data, mdr)" "data \<noteq> RNone" by blast
  from assms a(1) obtain args' r' mdr' where
    b: "calls run = [(func_name (callable_of h), args')]"
    "func_body (callable_of h) args' md = (r', mdr')"
    and c: "case r' of
                 Inl e \<Rightarrow> (\<exists>e'. outcome run = Raised e')
                           \<or> (\<exists>resp. outcome run = Response resp \<and> status_code resp = 400)
               | Inr data \<Rightarrow>
                   if data = RNone then outcome run = Raised (Http404 [])
                   else (\<exists>resp. outcome run = Response resp
                           \<and> status_code resp = f data)"
    by auto
  from a b have "args' = args" "r' = Inr data" by simp_all
  with c a(3) show "\<exists>resp. outcome run = Response resp \<and> status_code resp = f data" by simp
next
  fix resp
  assume o: "outcome run = Response resp"
  from assms show "resp = HttpResponse 403 [] \<or> status_code resp = 400
        \<or> (\<exists>args data mdr. calls run = [(func_name (callable_of h), args)]
              \<and> func_body (callable_of h) args md = (Inr data, mdr) \<and> data \<noteq> RNone)"
  proof (elim disjE exE conjE)
    fix e assume "outcome run = Raised e"
    with o show ?thesis by simp
  next
    assume "outcome run = Response (HttpResponse 403 [])"
    with o show ?thesis by simp
  next
    fix resp' assume "outcome run = Response resp'" "status_code resp' = 400"
    with o show ?thesis by simp
  next
    fix args r mdr
    assume a: "calls run = [(func_name (callable_of h), args)]"
      "func_body (callable_of h) args md = (r, mdr)"
      and c: "case r of
                 Inl e \<Rightarrow> (\<exists>e'. outcome run = Raised e')
                           \<or> (\<exists>resp. outcome run = Response resp \<and> status_code resp = 400)
               | Inr data \<Rightarrow>
                   if data = RNone then outcome run = Raised (Http404 [])
                   else (\<exists>resp. outcome run = Response resp
                           \<and> status_code resp = f data)"
    show ?thesis
    proof (cases r)
      case (Inl e)
      with c o show ?thesis by auto
    next
      case (Inr data)
      show ?thesis
      proof (cases "data = RNone")
        case True
        with c o Inr show ?thesis by simp
      next
        case False
        with a Inr show ?thesis by blast
      qed
    qed
  qed
qed

text \<open>
  Claim C5, as the code has it. Call a request successful when the business
  method was called and returned a result other than \<open>None\<close>, and let the status of
  that result be the status of a pre-built response, and 200 for a model or a list,
  which the engine encodes. For either engine:
  \<^item> a successful GET or PUT is answered with the status of the result;
  \<^item> a successful POST is answered with 201 when the status of the result is
    200, and with the status of the result otherwise;
  \<^item> a successful DELETE is answered with 204 when the status of the result is
    200, and with the status of the result otherwise;
  \<^item> every other response of the four verb methods is the empty 403 of a refused
    permission or has status 400, which the rewrites leave alone.
\<close>

theorem verb_status:
  "let fn = func_name (callable_of h);
       status = (\<lambda>data. case data of RResponse r \<Rightarrow> status_code r | _ \<Rightarrow> 200);
       returned = (\<lambda>run args data. \<exists>mdr. calls run = [(fn, args)]
                     \<and> func_body (callable_of h) args md = (Inr data, mdr) \<and> data \<noteq> RNone);
       answers = (\<lambda>run rewrite.
         (\<forall>args data. returned run args data \<longrightarrow>
            (\<exists>resp. outcome run = Response resp \<and> status_code resp = rewrite (status data)))
         \<and> (\<forall>resp. outcome run = Response resp \<longrightarrow>
              resp = HttpResponse 403 [] \<or> status_code resp = 400
              \<or> (\<exists>args data. returned run args data)))
   in answers (get k c md request h res kw) (\<lambda>s. s)
      \<and> answers (put k c md request h res kw) (\<lambda>s. s)
      \<and> answers (post k c md request h res kw) (\<lambda>s. if s = 200 then 201 else s)
      \<and> answers (delete k c md request h res kw) (\<lambda>s. if s = 200 then 204 else s)"
proof -
  have g: "(calls (get k c md request h res kw) = []
      \<and> ((\<exists>e. outcome (get k c md request h res kw) = Raised e)
           \<or> outcome (get k c md request h res kw) = Response (HttpResponse 403 [])
           \<or> (\<exists>resp. outcome (get k c md request h res kw) = Response resp \<and> status_code resp = 400)))
    \<or> (\<exists>args r mdr. calls (get k c md request h res kw) = [(func_name (callable_of h), args)]
          \<and> func_body (callable_of h) args md = (r, mdr)
          \<and> (case r of
                 Inl e \<Rightarrow> (\<exists>e'. outcome (get k c md request h res kw) = Raised e')
                           \<or> (\<exists>resp. outcome (get k c md request h res kw) = Response resp \<and> status_code resp = 400)
               | Inr data \<Rightarrow>
                   if data = RNone then outcome (get k c md request h res kw) = Raised (Http404 [])
                   else (\<exists>resp. outcome (get k c md request h res kw) = Response resp
                           \<and> status_code resp = (case data of RResponse r \<Rightarrow> status_code r | _ \<Rightarrow> 200))))"
    unfolding get_def by (rule transport_call_result)
  have p: "(calls (put k c md request h res kw) = []
      \<and> ((\<exists>e. outcome (put k c md request h res kw) = Raised e)
           \<or> outcome (put k c md request h res kw) = Response (HttpResponse 403 [])
           \<or> (\<exists>resp. outcome (put k c md request h res kw) = Response resp \<and> status_code resp = 400)))
    \<or> (\<exists>args r mdr. calls (put k c md request h res kw) = [(func_name (callable_of h), args)]
          \<and> func_body (callable_of h) args md = (r, mdr)
          \<and> (case r of
                 Inl e \<Rightarrow> (\<exists>e'. outcome (put k c md request h res kw) = Raised e')
                           \<or> (\<exists>resp. outcome (put k c md request h res kw) = Response resp \<and> status_code resp = 400)
               | Inr data \<Rightarrow>
                   if data = RNone then outcome (put k c md request h res kw) = Raised (Http404 [])
                   else (\<exists>resp. outcome (put k c md request h res kw) = Response resp
                           \<and> status_code resp = (case data of RResponse r \<Rightarrow> status_code r | _ \<Rightarrow> 200))))"
    unfolding put_def by (rule idempotent_call_result)
  have po: "(calls (post k c md request h res kw) = []
      \<and> ((\<exists>e. outcome (post k c md request h res kw) = Raised e)
           \<or> outcome (post k c md request h res kw) = Response (HttpResponse 403 [])
           \<or> (\<exists>resp. outcome (post k c md request h res kw) = Response resp \<and> status_code resp = 400)))
    \<or> (\<exists>args r mdr. calls (post k c md request h res kw) = [(func_name (callable_of h), args)]
          \<and> func_body (callable_of h) args md = (r, mdr)
          \<and> (case r of
                 Inl e \<Rightarrow> (\<exists>e'. outcome (post k c md request h res kw) = Raised e')
                           \<or> (\<exists>resp. outcome (post k c md request h res kw) = Response resp \<and> status_code resp = 400)
               | Inr data \<Rightarrow>
                   if data = RNone then outcome (post k c md request h res kw) = Raised (Http404 [])
                   else (\<exists>resp. outcome (post k c md request h res kw) = Response resp
                           \<and> status_code resp = (if (case data of RResponse r \<Rightarrow> status_code r | _ \<Rightarrow> 200) = 200 then 201 else (case data of RResponse r \<Rightarrow> status_code r | _ \<Rightarrow> 200)))))"
    unfolding post_def by (rule rewrite_status_result [OF _ idempotent_call_result]) simp
  have d: "(calls (delete k c md request h res kw) = []
      \<and> ((\<exists>e. outcome (delete k c md request h res kw) = Raised e)
           \<or> outcome (delete k c md request h res kw) = Response (HttpResponse 403 [])
           \<or> (\<exists>resp. outcome (delete k c md request h res kw) = Response resp \<and> status_code resp = 400)))
    \<or> (\<exists>args r mdr. calls (delete k c md request h res kw) = [(func_name (callable_of h), args)]
          \<and> func_body (callable_of h) args md = (r, mdr)
          \<and> (case r of
                 Inl e \<Rightarrow> (\<exists>e'. outcome (delete k c md request h res kw) = Raised e')
                           \<or> (\<exists>resp. outcome (delete k c md request h res kw) = Response resp \<and> status_code resp = 400)
               | Inr data \<Rightarrow>
                   if data = RNone then outcome (delete k c md request h res kw) = Raised (Http404 [])
                   else (\<exists>resp. outcome (delete k c md request h res kw) = Response resp
                           \<and> status_code resp = (if (case data of RResponse r \<Rightarrow> status_code r | _ \<Rightarrow> 200) = 200 then 204 else (case data of RResponse r \<Rightarrow> status_code r | _ \<Rightarrow> 200)))))"
    unfolding delete_def by (rule rewrite_status_result [OF _ idempotent_call_result]) simp
  note a = result_answers [OF g] result_answers [OF p] result_answers [OF po]
    result_answers [OF d]
  show ?thesis unfolding Let_def using a by blast
qed

text \<open>
  The theorem at the example controller: reading item 1 gives 200, creating an item
  gives 201, and deleting item 1 gives 204.
\<close>

theorem verb_status_witness:
  "calls (get Single DemoController Metadata demo_request (Method demo_get_one) DemoResource
       [(''id'', PStr ''1'')]) = [(''get_one'', [(''pk'', PInt 1)])]
   \<and> func_body demo_get_one [(''pk'', PInt 1)] Metadata = (Inr (RModel item1), Metadata)
   \<and> (\<exists>resp. outcome (get Single DemoController Metadata demo_request (Method demo_get_one)
          DemoResource [(''id'', PStr ''1'')]) = Response resp \<and> status_code resp = 200)
   \<and> calls (post Many DemoController Metadata
         (demo_request\<lparr>req_method := Some POST, req_content_type := ''application/json'',
            req_body := Decoded (JObj [(''x'', JInt 1)])\<rparr>)
         (Method demo_create_one) DemoResource [])
       = [(''create_one'', [(''data'', PModel (Model ''Create'' [(''x'', JInt 1)]))])]
   \<and> func_body demo_create_one [(''data'', PModel (Model ''Create'' [(''x'', JInt 1)]))] Metadata
       = (Inr (RModel (Model ''Retrieve'' [(''x'', JInt 1), (''id'', JInt 3)])), Metadata)
   \<and> (\<exists>resp. outcome (post Many DemoController Metadata
         (demo_request\<lparr>req_method := Some POST, req_content_type := ''application/json'',
            req_body := Decoded (JObj [(''x'', JInt 1)])\<rparr>)
         (Method demo_create_one) DemoResource []) = Response resp \<and> status_code resp = 201)
   \<and> calls (delete Single DemoController Metadata (demo_request\<lparr>req_method := Some DELETE\<rparr>)
         (Method demo_delete_one) DemoResource [(''id'', PStr ''1'')])
       = [(''delete_one'', [(''pk'', PInt 1)])]
   \<and> func_body demo_delete_one [(''pk'', PInt 1)] Metadata = (Inr (RModel item1), Metadata)
   \<and> (\<exists>resp. outcome (delete Single DemoController Metadata
         (demo_request\<lparr>req_method := Some DELETE\<rparr>)
         (Method demo_delete_one) DemoResource [(''id'', PStr ''1'')]) = Response resp
       \<and> status_code resp = 204)"
proof -
  let ?get = "get Single DemoController Metadata demo_request (Method demo_get_one) DemoResource
       [(''id'', PStr ''1'')]"
  let ?preq = "demo_request\<lparr>req_method := Some POST, req_content_type := ''application/json'',
            req_body := Decoded (JObj [(''x'', JInt 1)])\<rparr>"
  let ?post = "post Many DemoController Metadata ?preq (Method demo_create_one) DemoResource []"
  let ?dreq = "demo_request\<lparr>req_method := Some DELETE\<rparr>"
  let ?delete = "delete Single DemoController Metadata ?dreq (Method demo_delete_one)
       DemoResource [(''id'', PStr ''1'')]"
  let ?created = "Model ''Retrieve'' [(''x'', JInt 1), (''id'', JInt 3)]"
  have n: "func_name demo_get_one = ''get_one''"
    "callable_of (Method demo_get_one) = demo_get_one"
    "func_name demo_create_one = ''create_one''"
    "callable_of (Method demo_create_one) = demo_create_one"
    "func_name demo_delete_one = ''delete_one''"
    "callable_of (Method demo_delete_one) = demo_delete_one"
    by (simp_all add: callable_of_def demo_get_one_def demo_create_one_def demo_delete_one_def)
  have c1: "calls ?get = [(''get_one'', [(''pk'', PInt 1)])]" by code_simp
  have f1: "func_body demo_get_one [(''pk'', PInt 1)] Metadata = (Inr (RModel item1), Metadata)"
    by code_simp
  have c2: "calls ?post
      = [(''create_one'', [(''data'', PModel (Model ''Create'' [(''x'', JInt 1)]))])]"
    by code_simp
  have f2: "func_body demo_create_one [(''data'', PModel (Model ''Create'' [(''x'', JInt 1)]))]
      Metadata = (Inr (RModel ?created), Metadata)"
    by code_simp
  have c3: "calls ?delete = [(''delete_one'', [(''pk'', PInt 1)])]" by code_simp
  have f3: "func_body demo_delete_one [(''pk'', PInt 1)] Metadata
      = (Inr (RModel item1), Metadata)"
    by code_simp
  note G = verb_status [where k = Single and c = DemoController and md = Metadata
      and request = demo_request and h = "Method demo_get_one" and res = DemoResource
      and kw = "[(''id'', PStr ''1'')]", unfolded Let_def n, THEN conjunct1, THEN conjunct1,
      THEN spec, THEN spec, THEN mp, of "[(''pk'', PInt 1)]" "RModel item1"]
  from G c1 f1 have g: "\<exists>resp. outcome ?get = Response resp \<and> status_code resp = 200"
    by simp
  note P = verb_status [where k = Many and c = DemoController and md = Metadata
      and request = ?preq and h = "Method demo_create_one" and res = DemoResource
      and kw = "[]", unfolded Let_def n, THEN conjunct2, THEN conjunct2, THEN conjunct1,
      THEN conjunct1, THEN spec, THEN spec, THEN mp,
      of "[(''data'', PModel (Model ''Create'' [(''x'', JInt 1)]))]" "RModel ?created"]
  from P c2 f2 have p: "\<exists>resp. outcome ?post = Response resp \<and> status_code resp = 201"
    by simp
  note D = verb_status [where k = Single and c = DemoController and md = Metadata
      and request = ?dreq and h = "Method demo_delete_one" and res = DemoResource
      and kw = "[(''id'', PStr ''1'')]", unfolded Let_def n, THEN conjunct2, THEN conjunct2,
      THEN conjunct2, THEN conjunct1, THEN spec, THEN spec, THEN mp,
      of "[(''pk'', PInt 1)]" "RModel item1"]
  from D c3 f3 have d: "\<exists>resp. outcome ?delete = Response resp \<and> status_code resp = 204"
    by simp
  from c1 f1 g c2 f2 p c3 f3 d show ?thesis by simp
qed

text \<open>
  The claim as it was stated fails at a \<open>get_one\<close> that returns a pre-built response
  with status 202: the successful GET on the single entity is answered with 202,
  not 200.
\<close>

theorem verb_status_counterexample:
  "calls (get Single DemoController Metadata demo_request
       (Method (demo_get_one\<lparr>func_body := \<lambda>kw md.
          (Inr (RResponse (HttpResponse 202 ''queued'')), md)\<rparr>))
       DemoResource [(''id'', PStr ''1'')])
     = [(''get_one'', [(''pk'', PInt 1)])]
   \<and> outcome (get Single DemoController Metadata demo_request
       (Method (demo_get_one\<lparr>func_body := \<lambda>kw md.
          (Inr (RResponse (HttpResponse 202 ''queued'')), md)\<rparr>))
       DemoResource [(''id'', PStr ''1'')])
     = Response (HttpResponse 202 ''queued'')
   \<and> status_code (HttpResponse 202 ''queued'') = 202"
  by code_simp

section \<open>Validation of the request body\<close>

lemma validate_items_Inr:
  "validate_items m items = Inr xs \<Longrightarrow>
   list_all2 (\<lambda>item x. \<exists>mo. model_validate m item = Inr mo \<and> x = PModel mo) items xs"
proof (induction items arbitrary: xs)
  case Nil
  then show ?case by simp
next
  case (Cons item rest)
  then show ?case by (auto split: sum.splits)
qed

lemma validate_items_Inl:
  "validate_items m items = Inl e \<Longrightarrow> \<exists>item \<in> set items. model_validate m item = Inl e"
proof (induction items)
  case Nil
  then show ?case by simp
next
  case (Cons item rest)
  then show ?case by (auto split: sum.splits)
qed

lemma rewrite_bad_request [simp]: "rewrite_status s (bad_request msg) = bad_request msg"
  by (simp add: rewrite_status_def bad_request_def HttpResponseBadRequest_def HttpResponse_def)


section \<open>Refused permission\<close>

text \<open>
  When a permission or a throttle refuses the request, no step of the engine calls
  a business method, and every response is an error response.
\<close>

lemma many_transport_denied:
  "\<not> check_permission c request \<Longrightarrow>
   many_transport c md h res request kw
     = \<lparr>outcome = Response (HttpResponse 403 []), calls = [], logs = []\<rparr>"
  by (simp add: many_transport_def)

lemma single_transport_denied:
  "\<not> check_permission c request \<Longrightarrow>
   single_transport c md h res request kw
     = (if \<not> has_key (res_pk res) kw
        then raises (Http404 ''Missing retrieve resource pk'')
        else (case bind_pk c h res request kw of
                Inl e \<Rightarrow> raises e
              | Inr (kwb, lg) \<Rightarrow>
                  \<lparr>outcome = Response (HttpResponse 403 []), calls = [], logs = lg\<rparr>))"
  by (simp add: single_transport_def raises_def split: sum.splits prod.splits)

lemma bind_pk_raises:
  assumes "''pk'' \<in> set (spec_args (get_controller_handler_spec h))"
    and "map_of kw (res_pk res) = Some v"
    and "map_of (model_fields (Retrieve res)) (res_pk res) = Some ann"
    and "construct ann v = Inl e"
  shows "bind_pk c h res request kw = Inl (if is_ValueError e then Http404 [] else e)"
  using assms by (simp add: bind_pk_def Let_def)

lemma transport_call_denied:
  assumes "\<not> check_permission c request"
  shows "calls (transport_call k c md h res request kw) = []
     \<and> (\<forall>resp. outcome (transport_call k c md h res request kw) = Response resp \<longrightarrow>
          resp = HttpResponse 403 [] \<or> status_code resp = 400)"
proof (cases "keyword_clash [''self'', ''handler'', ''resource'', ''request'', ''context''] kw")
  case True
  then show ?thesis by (simp add: transport_call_def raises_def)
next
  case False
  show ?thesis
  proof (cases k)
    case Single
    then have "transport_call k c md h res request kw = single_transport c md h res request kw"
      using False by (simp add: transport_call_def transport_def)
    then show ?thesis
      using single_transport_denied [OF assms, of md h res kw]
      by (auto simp add: raises_def split: sum.splits prod.splits if_splits)
  next
    case Many
    then have "transport_call k c md h res request kw = many_transport c md h res request kw"
      using False by (simp add: transport_call_def transport_def)
    then show ?thesis using many_transport_denied [OF assms, of md h res kw] by simp
  qed
qed

lemma idempotent_call_denied:
  assumes "\<not> check_permission c request"
  shows "calls (idempotent_call k c md request h res model kw) = []
     \<and> (\<forall>resp. outcome (idempotent_call k c md request h res model kw) = Response resp \<longrightarrow>
          resp = HttpResponse 403 [] \<or> status_code resp = 400)"
proof -
  let ?run = "idempotent_call k c md request h res model kw"
  have b: ?thesis if "?run = bad_request msg" for msg
    unfolding that by (simp add: bad_request_def HttpResponseBadRequest_def)
  have r: ?thesis if "?run = raises e" for e
    unfolding that by (simp add: raises_def)
  have t: ?thesis if "?run = transport_call k c md h res request kwd" for kwd
    unfolding that by (rule transport_call_denied [OF assms])
  show ?thesis
  proof (cases "keyword_clash
      [''self'', ''request'', ''controller_handler'', ''resource'', ''context'', ''model''] kw")
    case True
    then show ?thesis by (intro r [of multiple_values]) (simp add: idempotent_call_def)
  next
    case nc: False
    show ?thesis
    proof (cases "req_content_type request \<noteq> ''application/json''
        \<and> req_method request \<noteq> Some DELETE")
      case True
      then show ?thesis using nc
        by (intro b [of "''Content Type '' @ req_content_type request @ '' not allowed !''"])
          (simp add: idempotent_call_def idempotent_method_def)
    next
      case ct: False
      show ?thesis
      proof (cases model)
        case None
        then show ?thesis using ct nc
          by (intro t [of kw]) (auto simp add: idempotent_call_def idempotent_method_def)
      next
        case (Some m)
        show ?thesis
        proof (cases "req_body request")
          case EmptyBody
          then show ?thesis using ct nc Some
            by (intro b [of "''Request has empty body !''"])
              (auto simp add: idempotent_call_def idempotent_method_def)
        next
          case (Undecodable msg)
          then show ?thesis using ct nc Some
            by (intro b [of msg]) (auto simp add: idempotent_call_def idempotent_method_def)
        next
          case (Decoded payload)
          show ?thesis
          proof (cases "validate_payload m payload")
            case (Inl e)
            show ?thesis
            proof (cases "is_ValueError e")
              case True
              then show ?thesis using ct nc Some Decoded Inl
                by (intro b [of "str_exn e"])
                  (auto simp add: idempotent_call_def idempotent_method_def)
            next
              case False
              then show ?thesis using ct nc Some Decoded Inl
                by (intro r [of e]) (auto simp add: idempotent_call_def idempotent_method_def)
            qed
          next
            case (Inr data)
            then show ?thesis using ct nc Some Decoded
              by (intro t [of "AList.update ''data'' data kw"])
                (auto simp add: idempotent_call_def idempotent_method_def)
          qed
        qed
      qed
    qed
  qed
qed

lemma rewrite_status_denied:
  assumes "s \<noteq> 200" and "calls r = []
     \<and> (\<forall>resp. outcome r = Response resp \<longrightarrow>
          resp = HttpResponse 403 [] \<or> status_code resp = 400)"
  shows "calls (rewrite_status s r) = []
     \<and> (\<forall>resp. outcome (rewrite_status s r) = Response resp \<longrightarrow>
          resp = HttpResponse 403 [] \<or> status_code resp = 400)"
  using assms
  by (cases "outcome r") (auto simp add: outcome_rewrite_status HttpResponse_def)

lemma view_dispatch_denied:
  assumes "\<not> check_permission (tc_Controller t) request"
  shows "calls (view_dispatch t md request h res kw) = []
     \<and> (\<forall>resp. outcome (view_dispatch t md request h res kw) = Response resp \<longrightarrow>
          resp = HttpResponse 403 [] \<or> status_code resp = 400 \<or> status_code resp = 405)"
proof (cases "keyword_clash [''self'', ''request''] kw")
  case True
  then show ?thesis by (simp add: view_dispatch_def raises_def)
next
  case nc: False
  let ?k = "tc_kind t" and ?c = "tc_Controller t"
  have g: "calls (get ?k ?c md request h res kw) = []
     \<and> (\<forall>resp. outcome (get ?k ?c md request h res kw) = Response resp \<longrightarrow>
          resp = HttpResponse 403 [] \<or> status_code resp = 400)"
    unfolding get_def by (rule transport_call_denied [OF assms])
  have pu: "calls (put ?k ?c md request h res kw) = []
     \<and> (\<forall>resp. outcome (put ?k ?c md request h res kw) = Response resp \<longrightarrow>
          resp = HttpResponse 403 [] \<or> status_code resp = 400)"
    unfolding put_def by (rule idempotent_call_denied [OF assms])
  have po: "calls (post ?k ?c md request h res kw) = []
     \<and> (\<forall>resp. outcome (post ?k ?c md request h res kw) = Response resp \<longrightarrow>
          resp = HttpResponse 403 [] \<or> status_code resp = 400)"
    unfolding post_def
    by (rule rewrite_status_denied [OF _ idempotent_call_denied [OF assms]]) simp
  have de: "calls (delete ?k ?c md request h res kw) = []
     \<and> (\<forall>resp. outcome (delete ?k ?c md request h res kw) = Response resp \<longrightarrow>
          resp = HttpResponse 403 [] \<or> status_code resp = 400)"
    unfolding delete_def
    by (rule rewrite_status_denied [OF _ idempotent_call_denied [OF assms]]) simp
  show ?thesis
  proof (cases "req_method request")
    case None
    then show ?thesis using nc
      by (simp add: view_dispatch_def http_method_not_allowed_def HttpResponseNotAllowed_def)
  next
    case (Some v)
    show ?thesis
    proof (cases v)
      case GET
      then have "view_dispatch t md request h res kw = get ?k ?c md request h res kw"
        using Some nc by (simp add: view_dispatch_def)
      then show ?thesis using g by auto
    next
      case POST
      then have "view_dispatch t md request h res kw = post ?k ?c md request h res kw"
        using Some nc by (simp add: view_dispatch_def)
      then show ?thesis using po by auto
    next
      case PUT
      then have "view_dispatch t md request h res kw = put ?k ?c md request h res kw"
        using Some nc by (simp add: view_dispatch_def)
      then show ?thesis using pu by auto
    next
      case DELETE
      then have "view_dispatch t md request h res kw = delete ?k ?c md request h res kw"
        using Some nc by (simp add: view_dispatch_def)
      then show ?thesis using de by auto
    qed
  qed
qed

lemma dispatch_denied:
  assumes "\<not> check_permission (tc_Controller t) request"
  shows "calls (dispatch t request kw) = []
     \<and> (\<forall>resp. outcome (dispatch t request kw) = Response resp \<longrightarrow>
          resp = HttpResponse 403 [] \<or> status_code resp = 400 \<or> status_code resp = 405)"
proof (cases "keyword_clash [''self'', ''request''] kw")
  case True
  then show ?thesis by (simp add: dispatch_def raises_def)
next
  case nc: False
  have na: "calls http_method_not_allowed = []
     \<and> (\<forall>resp. outcome http_method_not_allowed = Response resp \<longrightarrow>
          resp = HttpResponse 403 [] \<or> status_code resp = 400 \<or> status_code resp = 405)"
    by (simp add: http_method_not_allowed_def HttpResponseNotAllowed_def)
  have early: "get_controller_method t request = Early resp \<Longrightarrow> status_code resp = 400" for resp
    by (auto simp add: get_controller_method_def many_get_controller_method_def
        HttpResponseBadRequest_def Let_def split: transport_kind.splits if_splits payload.splits)
  show ?thesis
  proof (cases "get_controller_method t request")
    case (Early resp)
    then show ?thesis using early [OF Early] nc by (simp add: dispatch_def)
  next
    case (Name n)
    show ?thesis
    proof (cases n)
      case None
      then show ?thesis using Name na nc by (simp add: dispatch_def)
    next
      case (Some cm)
      show ?thesis
      proof (cases "cm \<noteq> [] \<and> has_key cm (ctrl_attrs (tc_Controller t))")
        case False
        then have "dispatch t request kw = http_method_not_allowed"
          using Name Some nc by (auto simp add: dispatch_def)
        then show ?thesis using na by simp
      next
        case True
        show ?thesis
        proof (cases "map_of (ctrl_attrs (tc_Controller t)) (py_lower cm)")
          case None
          then have "dispatch t request kw
              = \<lparr>outcome = Raised (AttributeError (py_lower cm)), calls = [], logs = []\<rparr>"
            using Name Some nc True by (simp add: dispatch_def)
          then show ?thesis by simp
        next
          case hd: (Some hd)
          then obtain res' kw' where
            "dispatch t request kw = view_dispatch t Metadata request hd res' kw'"
            using Name Some nc True by (simp add: dispatch_def Let_def)
          then show ?thesis using view_dispatch_denied [OF assms, of Metadata hd res' kw'] by simp
        qed
      qed
    qed
  qed
qed

text \<open>
  Claim C2, as the code has it. When a configured permission or throttle check
  fails:
  \<^item> no business method is called, and a response of the dispatch is the empty
    403 or has status 400 or 405;
  \<^item> the collection engine's \<open>transport\<close> answers 403 with an empty body and
    nothing else happens;
  \<^item> the single-entity engine's \<open>transport\<close> raises \<open>Http404\<close> when the identity is
    missing, raises what the binding of \<open>pk\<close> raises when it raises (\<open>Http404\<close> for
    a \<open>ValueError\<close> of the coercion, the exception itself otherwise), and answers
    403 with an empty body in every other case.
\<close>

theorem permission_denied:
  assumes "\<not> check_permission (tc_Controller t) request"
  shows "calls (dispatch t request kw) = []
     \<and> (\<forall>resp. outcome (dispatch t request kw) = Response resp \<longrightarrow>
          resp = HttpResponse 403 [] \<or> status_code resp = 400 \<or> status_code resp = 405)
     \<and> many_transport (tc_Controller t) md h res request kwt
         = \<lparr>outcome = Response (HttpResponse 403 []), calls = [], logs = []\<rparr>
     \<and> single_transport (tc_Controller t) md h res request kwt
         = (if \<not> has_key (res_pk res) kwt
            then raises (Http404 ''Missing retrieve resource pk'')
            else (case bind_pk (tc_Controller t) h res request kwt of
                    Inl e \<Rightarrow> raises e
                  | Inr (kwb, lg) \<Rightarrow>
                      \<lparr>outcome = Response (HttpResponse 403 []), calls = [], logs = lg\<rparr>))
     \<and> (''pk'' \<in> set (spec_args (get_controller_handler_spec h))
          \<and> map_of kwt (res_pk res) = Some v
          \<and> map_of (model_fields (Retrieve res)) (res_pk res) = Some ann
          \<and> construct ann v = Inl e \<longrightarrow>
          single_transport (tc_Controller t) md h res request kwt
            = raises (if is_ValueError e then Http404 [] else e))
     \<and> status_code (HttpResponse 403 []) = 403
     \<and> content (HttpResponse 403 []) = Bytes []"
proof -
  note s = single_transport_denied [OF assms, of md h res kwt]
  have b: "single_transport (tc_Controller t) md h res request kwt
            = raises (if is_ValueError e then Http404 [] else e)"
    if "''pk'' \<in> set (spec_args (get_controller_handler_spec h))
          \<and> map_of kwt (res_pk res) = Some v
          \<and> map_of (model_fields (Retrieve res)) (res_pk res) = Some ann
          \<and> construct ann v = Inl e"
  proof -
    from that have "bind_pk (tc_Controller t) h res request kwt
        = Inl (if is_ValueError e then Http404 [] else e)"
      using bind_pk_raises [of h kwt res v ann e] by simp
    moreover from that have "has_key (res_pk res) kwt" by (simp add: has_key_def)
    ultimately show ?thesis using s by simp
  qed
  from dispatch_denied [OF assms, of kw] many_transport_denied [OF assms, of md h res kwt] s b
  show ?thesis by simp
qed

text \<open>
  The theorem for the example controller with a permission that refuses every
  request: at \<open>GET /api/demo\<close> nothing is called and the response is the empty
  403; the single-entity engine, given the identity \<open>x\<close>, which \<open>int\<close> rejects with
  a \<open>ValueError\<close>, raises \<open>Http404\<close>.
\<close>

theorem permission_denied_witness:
  "\<not> check_permission (tc_Controller (create_type_for Many (DemoController\<lparr>PERMISSIONS := [denied]\<rparr>) []))
       demo_request
   \<and> calls (dispatch (create_type_for Many (DemoController\<lparr>PERMISSIONS := [denied]\<rparr>) [])
        demo_request []) = []
   \<and> outcome (dispatch (create_type_for Many (DemoController\<lparr>PERMISSIONS := [denied]\<rparr>) [])
        demo_request []) = Response (HttpResponse 403 [])
   \<and> ''pk'' \<in> set (spec_args (get_controller_handler_spec (Method demo_get_one)))
   \<and> map_of (model_fields (Retrieve DemoResource)) (res_pk DemoResource) = Some int_type
   \<and> construct int_type (PStr ''x'')
       = Inl (ValueError (Some (''invalid literal for int() with base 10: 'x'' @ [CHR 0x27])))
   \<and> single_transport (DemoController\<lparr>PERMISSIONS := [denied]\<rparr>) Metadata (Method demo_get_one)
        DemoResource demo_request [(''id'', PStr ''x'')]
       = raises (Http404 [])"
proof -
  let ?t = "create_type_for Many (DemoController\<lparr>PERMISSIONS := [denied]\<rparr>) []"
  let ?e = "ValueError (Some (''invalid literal for int() with base 10: 'x'' @ [CHR 0x27]))"
  have d: "\<not> check_permission (tc_Controller ?t) demo_request" by code_simp
  have o: "outcome (dispatch ?t demo_request []) = Response (HttpResponse 403 [])" by code_simp
  have c: "tc_Controller ?t = DemoController\<lparr>PERMISSIONS := [denied]\<rparr>"
    by (simp add: create_type_for_def)
  have p: "''pk'' \<in> set (spec_args (get_controller_handler_spec (Method demo_get_one)))"
    by (simp add: get_controller_handler_spec_def demo_get_one_def)
  have k: "map_of [(''id'', PStr ''x'')] (res_pk DemoResource) = Some (PStr ''x'')"
    by (simp add: DemoResource_def)
  have f: "map_of (model_fields (Retrieve DemoResource)) (res_pk DemoResource) = Some int_type"
    by (simp add: DemoResource_def Demo_Retrieve_def)
  have x: "construct int_type (PStr ''x'') = Inl ?e" by code_simp
  have v: "is_ValueError ?e" by simp
  note T = permission_denied [OF d, where kw = "[]" and md = Metadata and h = "Method demo_get_one"
      and res = DemoResource and kwt = "[(''id'', PStr ''x'')]" and v = "PStr ''x''"
      and ann = int_type and e = ?e, unfolded c]
  from T have n: "calls (dispatch ?t demo_request []) = []" by blast
  note S = T [THEN conjunct2, THEN conjunct2, THEN conjunct2, THEN conjunct2, THEN conjunct1]
  from S p k f x have "single_transport (DemoController\<lparr>PERMISSIONS := [denied]\<rparr>) Metadata
        (Method demo_get_one) DemoResource demo_request [(''id'', PStr ''x'')]
       = raises (if is_ValueError ?e then Http404 [] else ?e)"
    by blast
  then have s: "single_transport (DemoController\<lparr>PERMISSIONS := [denied]\<rparr>) Metadata
        (Method demo_get_one) DemoResource demo_request [(''id'', PStr ''x'')]
       = raises (Http404 [])"
    using v by simp
  from d o n p f x s show ?thesis by blast
qed


text \<open>
  Claim C2 as stated fails: with the same refusing permission, a PUT with the content
  type \<open>text/plain\<close> is answered with 400, and a GET whose identity \<open>x\<close> is not an
  integer ends with \<open>Http404\<close>; neither is a 403.
\<close>

theorem permission_denied_counterexample:
  "\<not> check_permission (DemoController\<lparr>PERMISSIONS := [denied]\<rparr>)
       (demo_request\<lparr>req_method := Some PUT, req_content_type := ''text/plain''\<rparr>)
   \<and> outcome (dispatch (create_type_for Single (DemoController\<lparr>PERMISSIONS := [denied]\<rparr>) [])
        (demo_request\<lparr>req_method := Some PUT, req_content_type := ''text/plain''\<rparr>)
        [(''id'', PStr ''1'')])
     = Response (HttpResponseBadRequest ''Content Type text/plain not allowed !'')
   \<and> status_code (HttpResponseBadRequest ''Content Type text/plain not allowed !'') = 400
   \<and> \<not> check_permission (DemoController\<lparr>PERMISSIONS := [denied]\<rparr>) demo_request
   \<and> outcome (dispatch (create_type_for Single (DemoController\<lparr>PERMISSIONS := [denied]\<rparr>) [])
        demo_request [(''id'', PStr ''x'')])
     = Raised (Http404 [])"
  by code_simp

section \<open>Binding of the identity\<close>

text \<open>
  Claim C3, as the code has it. For a single-entity request whose handler declares
  a \<open>pk\<close> parameter and whose keyword arguments hold the identity \<open>v\<close>:
  \<^item> when the \<open>Retrieve\<close> schema has the identity field and the call of its
    annotation on \<open>v\<close> returns \<open>w\<close>, the identity is replaced by \<open>pk = w\<close>, and the
    business method, once the permission checks pass and the query is bound, is
    called exactly once with \<open>pk = w\<close>;
  \<^item> when the \<open>Retrieve\<close> schema lacks the identity field, \<open>v\<close> itself is bound to
    \<open>pk\<close> and one log record of level critical is written;
  \<^item> when the call of the annotation raises a \<open>ValueError\<close>, the outcome is
    \<open>Http404\<close>, and when it raises anything else, that exception is the outcome;
    in both cases no business method is called.
\<close>

theorem pk_binding:
  assumes "''pk'' \<in> set (spec_args (get_controller_handler_spec h))"
    and "map_of kw (res_pk res) = Some v"
  shows
    "(map_of (model_fields (Retrieve res)) (res_pk res) = Some ann \<and> construct ann v = Inr w \<longrightarrow>
        bind_pk c h res request kw = Inr (AList.update ''pk'' w (AList.delete (res_pk res) kw), [])
        \<and> (distinct (map fst kw) \<and> check_permission c request
             \<and> clean_args (func_spec (callable_of h)) (extra_params request) = Inr extra \<longrightarrow>
            (\<exists>args. calls (single_transport c md h res request kw)
                      = [(func_name (callable_of h), args)]
                 \<and> map_of args ''pk'' = Some w)))
     \<and> (map_of (model_fields (Retrieve res)) (res_pk res) = None \<longrightarrow>
        bind_pk c h res request kw
          = Inr (AList.update ''pk'' v (AList.delete (res_pk res) kw),
                 [LogCritical (ctrl_name c) (req_path request)]))
     \<and> (map_of (model_fields (Retrieve res)) (res_pk res) = Some ann \<and> construct ann v = Inl e
          \<and> is_ValueError e \<longrightarrow>
        single_transport c md h res request kw
          = \<lparr>outcome = Raised (Http404 []), calls = [], logs = []\<rparr>)
     \<and> (map_of (model_fields (Retrieve res)) (res_pk res) = Some ann \<and> construct ann v = Inl e
          \<and> \<not> is_ValueError e \<longrightarrow>
        single_transport c md h res request kw
          = \<lparr>outcome = Raised e, calls = [], logs = []\<rparr>)"
proof -
  have k: "has_key (res_pk res) kw" using assms(2) by (simp add: has_key_def)
  have b1: "bind_pk c h res request kw
      = Inr (AList.update ''pk'' w (AList.delete (res_pk res) kw), [])"
    if "map_of (model_fields (Retrieve res)) (res_pk res) = Some ann \<and> construct ann v = Inr w"
    using that assms by (simp add: bind_pk_def)
  have c1: "\<exists>args. calls (single_transport c md h res request kw)
                      = [(func_name (callable_of h), args)]
                 \<and> map_of args ''pk'' = Some w"
    if h1: "map_of (model_fields (Retrieve res)) (res_pk res) = Some ann \<and> construct ann v = Inr w"
      and h2: "distinct (map fst kw) \<and> check_permission c request
             \<and> clean_args (func_spec (callable_of h)) (extra_params request) = Inr extra"
  proof -
    let ?kwb = "AList.update ''pk'' w (AList.delete (res_pk res) kw)"
    let ?args = "dict_union (AList.delete (res_pk res) extra) ?kwb"
    have d: "distinct (map fst ?kwb)"
      using h2 by (simp add: distinct_update distinct_delete)
    have "map_of ?kwb ''pk'' = Some w" by (simp add: update_conv')
    then have m: "map_of ?args ''pk'' = Some w"
      using map_of_dict_union [OF d, of "AList.delete (res_pk res) extra" "''pk''"] by simp
    have "calls (single_transport c md h res request kw) = [(func_name (callable_of h), ?args)]"
      using single_transport_calls [OF k b1 [OF h1]] h2 by simp
    with m show ?thesis by blast
  qed
  have b2: "bind_pk c h res request kw
          = Inr (AList.update ''pk'' v (AList.delete (res_pk res) kw),
                 [LogCritical (ctrl_name c) (req_path request)])"
    if "map_of (model_fields (Retrieve res)) (res_pk res) = None"
    using that assms by (simp add: bind_pk_def)
  have b3: "single_transport c md h res request kw
          = \<lparr>outcome = Raised (Http404 []), calls = [], logs = []\<rparr>"
    if "map_of (model_fields (Retrieve res)) (res_pk res) = Some ann \<and> construct ann v = Inl e
          \<and> is_ValueError e"
    using that assms k by (simp add: single_transport_def bind_pk_def)
  have b4: "single_transport c md h res request kw
          = \<lparr>outcome = Raised e, calls = [], logs = []\<rparr>"
    if "map_of (model_fields (Retrieve res)) (res_pk res) = Some ann \<and> construct ann v = Inl e
          \<and> \<not> is_ValueError e"
    using that assms k by (simp add: single_transport_def bind_pk_def)
  from b1 c1 b2 b3 b4 show ?thesis by blast
qed

text \<open>
  The theorem at \<open>GET /api/demo/7\<close>: the identity field of the example resource is
  an integer, and \<open>get_one\<close> is called with the integer 7.
\<close>

theorem pk_binding_witness:
  "''pk'' \<in> set (spec_args (get_controller_handler_spec (Method demo_get_one)))
   \<and> map_of [(''id'', PStr ''7'')] (res_pk DemoResource) = Some (PStr ''7'')
   \<and> map_of (model_fields (Retrieve DemoResource)) (res_pk DemoResource) = Some int_type
   \<and> construct int_type (PStr ''7'') = Inr (PInt 7)
   \<and> check_permission DemoController demo_request
   \<and> clean_args (func_spec (callable_of (Method demo_get_one))) (extra_params demo_request) = Inr []
   \<and> (\<exists>args. calls (single_transport DemoController Metadata (Method demo_get_one) DemoResource
                  demo_request [(''id'', PStr ''7'')])
               = [(func_name (callable_of (Method demo_get_one)), args)]
          \<and> map_of args ''pk'' = Some (PInt 7))
   \<and> func_name (callable_of (Method demo_get_one)) = ''get_one''"
proof -
  have a: "''pk'' \<in> set (spec_args (get_controller_handler_spec (Method demo_get_one)))"
    by (simp add: get_controller_handler_spec_def demo_get_one_def)
  have m: "map_of [(''id'', PStr ''7'')] (res_pk DemoResource) = Some (PStr ''7'')"
    by (simp add: DemoResource_def)
  have f: "map_of (model_fields (Retrieve DemoResource)) (res_pk DemoResource) = Some int_type"
    by (simp add: DemoResource_def Demo_Retrieve_def)
  have c: "construct int_type (PStr ''7'') = Inr (PInt 7)"
    by code_simp
  have p: "check_permission DemoController demo_request"
    by (simp add: check_permission_def DemoController_def)
  have x: "clean_args (func_spec (callable_of (Method demo_get_one))) (extra_params demo_request)
      = Inr []"
    by code_simp
  have d: "distinct (map fst [(''id'', PStr ''7'')])" by simp
  have n: "func_name (callable_of (Method demo_get_one)) = ''get_one''"
    by (simp add: callable_of_def demo_get_one_def)
  from pk_binding [OF a m, where ann = int_type and w = "PInt 7" and c = DemoController
      and request = demo_request and extra = "[]" and md = Metadata] f c d p x
  have "\<exists>args. calls (single_transport DemoController Metadata (Method demo_get_one) DemoResource
                  demo_request [(''id'', PStr ''7'')])
               = [(func_name (callable_of (Method demo_get_one)), args)]
          \<and> map_of args ''pk'' = Some (PInt 7)"
    by blast
  with a m f c p x n show ?thesis by blast
qed

text \<open>
  Claim C3 as stated fails for a coercion that fails with another exception than
  \<open>ValueError\<close>: with the identity field annotated \<open>Optional[int]\<close>, the call of the
  annotation raises a \<open>TypeError\<close>, which the engine does not turn into \<open>Http404\<close>.
\<close>

theorem pk_coercion_counterexample:
  "construct typing_Optional (PStr ''7'') = Inl (TypeError ''Cannot instantiate typing.Union'')
   \<and> single_transport DemoController Metadata (Method demo_get_one)
       (DemoResource\<lparr>Retrieve := Demo_Retrieve\<lparr>model_fields :=
          [(''x'', int_type), (''id'', typing_Optional)]\<rparr>\<rparr>)
       demo_request [(''id'', PStr ''7'')]
     = \<lparr>outcome = Raised (TypeError ''Cannot instantiate typing.Union''), calls = [], logs = []\<rparr>"
  by (simp add: typing_Optional_def single_transport_def has_key_def DemoResource_def
      bind_pk_def get_controller_handler_spec_def demo_get_one_def Demo_Retrieve_def)

end
